theory Spec2Isabelle
  imports Complex_Main "HOL-Library.Monad_Syntax"
begin

section \<open>Numbers and errors\<close>

text \<open>
  A Python \<open>float\<close> argument is a finite real. A value that is the result of float
  arithmetic is an \<open>npfloat\<close>: a finite real or one of the three special values of IEEE 754
  (signed zeros are not distinguished: a zero divisor counts as \<open>+0.0\<close>). The result of an
  operation is rounded as far as its kind is concerned: a result whose magnitude reaches
  the overflow threshold \<open>2^1024 - 2^970\<close> is an infinity, and a product, quotient, power or
  exponential whose magnitude is at most \<open>2^-1075\<close> is zero (a sum or difference of two
  floats does not underflow). The rounding of a result that stays in range is not
  modelled.

  Python and numpy agree on these operations except where Python raises: \<open>/\<close> raises
  \<open>ZeroDivisionError\<close> on a zero divisor and \<open>**\<close> raises \<open>OverflowError\<close> on overflow, where
  numpy warns and returns an infinity or NaN. The calculations of expected value and the
  portfolio's limits are kept in exact real arithmetic.
\<close>

datatype py_error =
  ZeroDivisionError | OverflowError | ValidationError | KeyError | TypeError

datatype npfloat = Fin real | PInf | NInf | NaN

definition float_overflow :: real where
  "float_overflow = 2 ^ 1024 - 2 ^ 970"

definition float_underflow :: real where
  "float_underflow = 1 / 2 ^ 1075"

definition round_sum :: "real \<Rightarrow> npfloat" where
  "round_sum x =
     (if x \<ge> float_overflow then PInf
      else if x \<le> - float_overflow then NInf
      else Fin x)"

definition round_prod :: "real \<Rightarrow> npfloat" where
  "round_prod x =
     (if x \<ge> float_overflow then PInf
      else if x \<le> - float_overflow then NInf
      else if \<bar>x\<bar> \<le> float_underflow then Fin 0
      else Fin x)"

fun np_neg :: "npfloat \<Rightarrow> npfloat" where
  "np_neg (Fin x) = Fin (- x)"
| "np_neg PInf = NInf"
| "np_neg NInf = PInf"
| "np_neg NaN = NaN"

fun np_abs :: "npfloat \<Rightarrow> npfloat" where
  "np_abs (Fin x) = Fin \<bar>x\<bar>"
| "np_abs PInf = PInf"
| "np_abs NInf = PInf"
| "np_abs NaN = NaN"

fun np_add :: "npfloat \<Rightarrow> npfloat \<Rightarrow> npfloat" where
  "np_add NaN _ = NaN"
| "np_add _ NaN = NaN"
| "np_add (Fin x) (Fin y) = round_sum (x + y)"
| "np_add PInf NInf = NaN"
| "np_add NInf PInf = NaN"
| "np_add PInf _ = PInf"
| "np_add _ PInf = PInf"
| "np_add NInf _ = NInf"
| "np_add _ NInf = NInf"

definition np_sub :: "npfloat \<Rightarrow> npfloat \<Rightarrow> npfloat" where
  "np_sub a b = np_add a (np_neg b)"

fun np_mul :: "npfloat \<Rightarrow> npfloat \<Rightarrow> npfloat" where
  "np_mul NaN _ = NaN"
| "np_mul _ NaN = NaN"
| "np_mul (Fin x) (Fin y) = round_prod (x * y)"
| "np_mul PInf (Fin y) = (if y = 0 then NaN else if y > 0 then PInf else NInf)"
| "np_mul NInf (Fin y) = (if y = 0 then NaN else if y > 0 then NInf else PInf)"
| "np_mul (Fin x) PInf = (if x = 0 then NaN else if x > 0 then PInf else NInf)"
| "np_mul (Fin x) NInf = (if x = 0 then NaN else if x > 0 then NInf else PInf)"
| "np_mul PInf PInf = PInf"
| "np_mul NInf NInf = PInf"
| "np_mul PInf NInf = NInf"
| "np_mul NInf PInf = NInf"

text \<open>Division without an exception: numpy's, and Python's once the divisor is non-zero.\<close>

fun np_div :: "npfloat \<Rightarrow> npfloat \<Rightarrow> npfloat" where
  "np_div NaN _ = NaN"
| "np_div _ NaN = NaN"
| "np_div (Fin x) (Fin y) =
     (if y \<noteq> 0 then round_prod (x / y)
      else if x > 0 then PInf else if x < 0 then NInf else NaN)"
| "np_div (Fin x) PInf = Fin 0"
| "np_div (Fin x) NInf = Fin 0"
| "np_div PInf (Fin y) = (if y \<ge> 0 then PInf else NInf)"
| "np_div NInf (Fin y) = (if y \<ge> 0 then NInf else PInf)"
| "np_div PInf PInf = NaN"
| "np_div PInf NInf = NaN"
| "np_div NInf PInf = NaN"
| "np_div NInf NInf = NaN"

text \<open>\<open><\<close> on floats: every comparison with NaN is false.\<close>

fun np_less :: "npfloat \<Rightarrow> npfloat \<Rightarrow> bool" where
  "np_less (Fin x) (Fin y) = (x < y)"
| "np_less (Fin x) PInf = True"
| "np_less NInf (Fin y) = True"
| "np_less NInf PInf = True"
| "np_less _ _ = False"

text \<open>
  Python's builtins \<open>min(a, b)\<close> and \<open>max(a, b)\<close>: the first argument is kept unless the
  second compares strictly below (above) it, so a NaN first argument is returned as it is.
\<close>

definition py_min :: "npfloat \<Rightarrow> npfloat \<Rightarrow> npfloat" where
  "py_min a b = (if np_less b a then b else a)"

definition py_max :: "npfloat \<Rightarrow> npfloat \<Rightarrow> npfloat" where
  "py_max a b = (if np_less a b then b else a)"

text \<open>Python's \<open>x / y\<close> and \<open>x ** 2\<close> on float arguments.\<close>

definition py_truediv :: "real \<Rightarrow> real \<Rightarrow> py_error + npfloat" where
  "py_truediv x y = (if y = 0 then Inl ZeroDivisionError else Inr (round_prod (x / y)))"

definition py_pow2 :: "real \<Rightarrow> py_error + npfloat" where
  "py_pow2 x = (if x ^ 2 \<ge> float_overflow then Inl OverflowError else Inr (round_prod (x ^ 2)))"

fun np_log :: "npfloat \<Rightarrow> npfloat" where
  "np_log (Fin x) = (if x > 0 then Fin (ln x) else if x = 0 then NInf else NaN)"
| "np_log PInf = PInf"
| "np_log NInf = NaN"
| "np_log NaN = NaN"

definition np_sqrt :: "real \<Rightarrow> npfloat" where
  "np_sqrt x = (if x \<ge> 0 then Fin (sqrt x) else NaN)"

fun np_exp :: "npfloat \<Rightarrow> npfloat" where
  "np_exp (Fin x) = round_prod (exp x)"
| "np_exp PInf = PInf"
| "np_exp NInf = Fin 0"
| "np_exp NaN = NaN"

text \<open>
  \<open>scipy.stats.norm\<close> is the standard normal distribution: the density
  \<open>exp (- x\<^sup>2 / 2) / sqrt (2 pi)\<close> and its integral from minus infinity, written here as one
  half plus the term-wise integral of the density's power series. A distribution function
  takes its values in [0, 1]; \<open>norm_cdf\<close> writes the two bounds out, which makes them
  available without integration theory. On the special values \<open>cdf\<close> and \<open>pdf\<close> return the
  limits.
\<close>

definition std_normal_pdf :: "real \<Rightarrow> real" where
  "std_normal_pdf x = exp (- (x ^ 2) / 2) / sqrt (2 * pi)"

definition std_normal_cdf :: "real \<Rightarrow> real" where
  "std_normal_cdf x =
     1 / 2 + (\<Sum>n. (- 1) ^ n * x ^ (2 * n + 1) / (2 ^ n * fact n * real (2 * n + 1)))
             / sqrt (2 * pi)"

fun norm_cdf :: "npfloat \<Rightarrow> npfloat" where
  "norm_cdf (Fin x) = round_prod (max 0 (min 1 (std_normal_cdf x)))"
| "norm_cdf PInf = Fin 1"
| "norm_cdf NInf = Fin 0"
| "norm_cdf NaN = NaN"

fun norm_pdf :: "npfloat \<Rightarrow> npfloat" where
  "norm_pdf (Fin x) = round_prod (std_normal_pdf x)"
| "norm_pdf PInf = Fin 0"
| "norm_pdf NInf = Fin 0"
| "norm_pdf NaN = NaN"

section \<open>Expected value (calculations/expected_value.py)\<close>

record ev_metrics =
  expected_value :: real
  ev_percent :: real
  win_amount :: real
  loss_amount :: real
  win_probability :: real
  loss_probability :: real
  profit_factor :: npfloat

definition calculate_credit_spread_ev :: "real \<Rightarrow> real \<Rightarrow> real \<Rightarrow> ev_metrics" where
  "calculate_credit_spread_ev premium_collected max_loss probability_of_profit =
     (let win_prob = probability_of_profit / 100;
          loss_prob = 1 - win_prob;
          win_amt = premium_collected;
          loss_amt = max_loss;
          ev = (win_prob * win_amt) - (loss_prob * loss_amt);
          (evp, pf) =
            (if max_loss > 0
             then ((ev / max_loss) * 100,
                   (if loss_prob > 0
                    then Fin ((win_prob * win_amt) / (loss_prob * loss_amt))
                    else PInf))
             else (0, Fin 0))
      in \<lparr> expected_value = ev, ev_percent = evp, win_amount = win_amt,
           loss_amount = loss_amt, win_probability = win_prob,
           loss_probability = loss_prob, profit_factor = pf \<rparr>)"


text \<open>
  \<open>b = win_amount / loss_amount\<close> is a float: it is zero when the win amount is zero and
  also when the quotient underflows. \<open>(b * p - q) / b\<close> then raises.
\<close>

definition kelly_criterion :: "real \<Rightarrow> real \<Rightarrow> real \<Rightarrow> py_error + npfloat" where
  "kelly_criterion win_prob win_amt loss_amt =
     (if loss_amt = 0 then Inr (Fin 0)
      else
        let b = round_prod (win_amt / loss_amt);
            p = Fin win_prob;
            q = np_sub (Fin 1) p
        in if b = Fin 0 then Inl ZeroDivisionError
           else
             let kelly = np_div (np_sub (np_mul b p) q) b;
                 fractional_kelly =
                   py_max (Fin 0) (py_min (np_mul kelly (Fin 0.25)) (Fin 0.05))
             in Inr fractional_kelly)"

section \<open>Greeks (calculations/greeks.py)\<close>

text \<open>\<open>str.lower\<close> on ASCII text.\<close>

definition lower_char :: "char \<Rightarrow> char" where
  "lower_char c =
     (case map_of (zip ''ABCDEFGHIJKLMNOPQRSTUVWXYZ'' ''abcdefghijklmnopqrstuvwxyz'') c of
        Some l \<Rightarrow> l
      | None \<Rightarrow> c)"

definition lower :: "string \<Rightarrow> string" where
  "lower s = map lower_char s"

text \<open>The returned dict: \<open>None\<close> is Python's \<open>None\<close>, the "unavailable" value.\<close>

record greeks =
  delta :: "npfloat option"
  gamma :: "npfloat option"
  theta :: "npfloat option"
  vega :: "npfloat option"
  rho :: "npfloat option"

definition greeks_unavailable :: greeks where
  "greeks_unavailable =
     \<lparr> delta = None, gamma = None, theta = None, vega = None, rho = None \<rparr>"

text \<open>
  \<open>d1\<close> of the closed-form formula, in the order the source evaluates it. Two of its
  operations are Python's and can raise: \<open>spot_price / strike_price\<close> on a zero strike and
  \<open>implied_volatility ** 2\<close> on overflow. The logarithm, the sums and products and the
  division by \<open>implied_volatility * np.sqrt(time_to_expiration)\<close> do not raise.
\<close>

definition greeks_d1 :: "real \<Rightarrow> real \<Rightarrow> real \<Rightarrow> real \<Rightarrow> real \<Rightarrow> py_error + npfloat" where
  "greeks_d1 spot_price strike_price time_to_expiration risk_free_rate implied_volatility =
     (case py_truediv spot_price strike_price of
        Inl e \<Rightarrow> Inl e
      | Inr ratio \<Rightarrow>
          (case py_pow2 implied_volatility of
             Inl e \<Rightarrow> Inl e
           | Inr vol_squared \<Rightarrow>
               Inr (np_div
                      (np_add (np_log ratio)
                         (np_mul (np_add (Fin risk_free_rate) (np_mul (Fin 0.5) vol_squared))
                            (Fin time_to_expiration)))
                      (np_mul (Fin implied_volatility) (np_sqrt time_to_expiration)))))"

text \<open>
  The body of the \<open>try\<close> block. Once \<open>d1\<close> is computed, nothing else raises.
\<close>

definition calculate_all_greeks_try ::
  "real \<Rightarrow> real \<Rightarrow> real \<Rightarrow> real \<Rightarrow> real \<Rightarrow> string
     \<Rightarrow> py_error + greeks" where
  "calculate_all_greeks_try spot_price strike_price time_to_expiration
       risk_free_rate implied_volatility option_type =
     (if time_to_expiration \<le> 0 then
        (let d = (if lower option_type = ''call''
                  then (if spot_price > strike_price then 1 else 0)
                  else (if spot_price < strike_price then - 1 else 0))
         in Inr \<lparr> delta = Some (Fin d), gamma = Some (Fin 0), theta = Some (Fin 0),
                  vega = Some (Fin 0), rho = Some (Fin 0) \<rparr>)
      else
        (case greeks_d1 spot_price strike_price time_to_expiration
                risk_free_rate implied_volatility of
           Inl e \<Rightarrow> Inl e
         | Inr d1 \<Rightarrow>
        (let sqrt_t = np_sqrt time_to_expiration;
             vol_sqrt_t = np_mul (Fin implied_volatility) sqrt_t;
             d2 = np_sub d1 vol_sqrt_t;
             disc = np_exp (np_mul (Fin (- risk_free_rate)) (Fin time_to_expiration));
             decay = np_div
                       (np_mul (np_mul (Fin (- spot_price)) (norm_pdf d1))
                          (Fin implied_volatility))
                       (np_mul (Fin 2) sqrt_t);
             (dl, th, rh) =
               (if lower option_type = ''call'' then
                  (norm_cdf d1,
                   np_sub decay
                     (np_mul (np_mul (np_mul (Fin risk_free_rate) (Fin strike_price)) disc)
                        (norm_cdf d2)),
                   np_div
                     (np_mul
                        (np_mul (np_mul (Fin strike_price) (Fin time_to_expiration)) disc)
                        (norm_cdf d2))
                     (Fin 100))
                else
                  (np_sub (norm_cdf d1) (Fin 1),
                   np_add decay
                     (np_mul (np_mul (np_mul (Fin risk_free_rate) (Fin strike_price)) disc)
                        (norm_cdf (np_neg d2))),
                   np_div
                     (np_mul
                        (np_mul (np_mul (Fin (- strike_price)) (Fin time_to_expiration)) disc)
                        (norm_cdf (np_neg d2)))
                     (Fin 100)));
             gm = np_div (norm_pdf d1)
                    (np_mul (np_mul (Fin spot_price) (Fin implied_volatility)) sqrt_t);
             vg = np_div (np_mul (np_mul (Fin spot_price) (norm_pdf d1)) sqrt_t)
                    (Fin 100);
             th_day = np_div th (Fin 365)
         in Inr \<lparr> delta = Some dl, gamma = Some gm, theta = Some th_day,
                  vega = Some vg, rho = Some rh \<rparr>)))"

text \<open>\<open>except Exception\<close>: every error becomes the all-\<open>None\<close> dict.\<close>

definition calculate_all_greeks ::
  "real \<Rightarrow> real \<Rightarrow> real \<Rightarrow> real \<Rightarrow> real \<Rightarrow> string
     \<Rightarrow> greeks" where
  "calculate_all_greeks spot_price strike_price time_to_expiration
       risk_free_rate implied_volatility option_type =
     (case calculate_all_greeks_try spot_price strike_price time_to_expiration
             risk_free_rate implied_volatility option_type of
        Inl e \<Rightarrow> greeks_unavailable
      | Inr g \<Rightarrow> g)"

definition calculate_delta ::
  "real \<Rightarrow> real \<Rightarrow> real \<Rightarrow> real \<Rightarrow> real \<Rightarrow> string
     \<Rightarrow> npfloat option" where
  "calculate_delta spot_price strike_price time_to_expiration
       risk_free_rate implied_volatility option_type =
     delta (calculate_all_greeks spot_price strike_price time_to_expiration
              risk_free_rate implied_volatility option_type)"

text \<open>
  The difference of two deltas as Python computes it: \<open>None - None\<close> is a \<open>TypeError\<close>.
\<close>

definition delta_difference :: "npfloat option \<Rightarrow> npfloat option \<Rightarrow> py_error + npfloat" where
  "delta_difference a b =
     (case (a, b) of
        (Some x, Some y) \<Rightarrow> Inr (np_sub x y)
      | _ \<Rightarrow> Inl TypeError)"

section \<open>Option contracts and vertical spreads (models/option.py)\<close>

text \<open>
  The pydantic models are records. Field names carry a prefix per class (\<open>oc_\<close>, \<open>ps_\<close>,
  \<open>cs_\<close>, \<open>sf_\<close>, \<open>tr_\<close>, \<open>pf_\<close>), since several classes share field names. \<open>Optional\<close>
  fields are options, dates and timestamps are integers. The float fields of these models
  are taken to hold finite values.
\<close>

datatype OptionType = CALL | PUT

datatype SpreadType = PUT_SPREAD | CALL_SPREAD | IRON_CONDOR | BUTTERFLY

record OptionContract =
  oc_symbol :: string
  oc_strike :: real
  oc_expiration :: int
  oc_option_type :: OptionType
  oc_bid :: "real option"
  oc_ask :: "real option"
  oc_last :: "real option"
  oc_mark :: "real option"
  oc_volume :: "int option"
  oc_open_interest :: "int option"
  oc_delta :: "real option"
  oc_gamma :: "real option"
  oc_theta :: "real option"
  oc_vega :: "real option"
  oc_rho :: "real option"
  oc_implied_volatility :: "real option"
  oc_iv_percentile :: "real option"
  oc_contract_symbol :: "string option"
  oc_days_to_expiration :: "int option"
  oc_last_updated :: int

text \<open>Python truthiness of an \<open>Optional[float]\<close>: \<open>None\<close> and \<open>0.0\<close> are both false.\<close>

definition truthy :: "real option \<Rightarrow> bool" where
  "truthy x = (case x of None \<Rightarrow> False | Some v \<Rightarrow> v \<noteq> 0)"

text \<open>\<open>if a and b:\<close> on two optional floats, giving both values when the test passes.\<close>

definition both_truthy :: "real option \<Rightarrow> real option \<Rightarrow> (real \<times> real) option" where
  "both_truthy x y =
     (case (x, y) of
        (Some a, Some b) \<Rightarrow> if a \<noteq> 0 \<and> b \<noteq> 0 then Some (a, b) else None
      | _ \<Rightarrow> None)"

record PutSpread =
  ps_symbol :: string
  ps_spread_type :: SpreadType
  ps_short_put :: OptionContract
  ps_long_put :: OptionContract
  ps_strike_width :: real
  ps_net_premium_collected :: real
  ps_max_profit :: real
  ps_max_loss :: real
  ps_breakeven :: real
  ps_delta :: "real option"
  ps_theta :: "real option"
  ps_vega :: "real option"
  ps_gamma :: "real option"
  ps_probability_of_profit :: "real option"
  ps_expected_value :: "real option"
  ps_dte :: int

text \<open>
  The keyword arguments of \<open>PutSpread(...)\<close>: \<open>None\<close> is a keyword that was not passed
  (or was passed as \<open>None\<close>).
\<close>

record PutSpread_kwargs =
  pk_symbol :: "string option"
  pk_spread_type :: "SpreadType option"
  pk_short_put :: "OptionContract option"
  pk_long_put :: "OptionContract option"
  pk_strike_width :: "real option"
  pk_net_premium_collected :: "real option"
  pk_max_profit :: "real option"
  pk_max_loss :: "real option"
  pk_breakeven :: "real option"
  pk_delta :: "real option"
  pk_theta :: "real option"
  pk_vega :: "real option"
  pk_gamma :: "real option"
  pk_probability_of_profit :: "real option"
  pk_expected_value :: "real option"
  pk_dte :: "int option"

text \<open>
  \<open>super().__init__(**data)\<close>: pydantic's validation. A field declared without a default
  (or with \<open>Field(...)\<close>) is required; \<open>strike_width\<close> has \<open>gt=0\<close> and
  \<open>probability_of_profit\<close> has \<open>ge=0, le=100\<close>. \<open>None\<close> is the \<open>ValidationError\<close>.
\<close>

definition PutSpread_validate :: "PutSpread_kwargs \<Rightarrow> PutSpread option" where
  "PutSpread_validate k =
     do {
       sym \<leftarrow> pk_symbol k;
       sp \<leftarrow> pk_short_put k;
       lp \<leftarrow> pk_long_put k;
       w \<leftarrow> pk_strike_width k;
       prem \<leftarrow> pk_net_premium_collected k;
       mp \<leftarrow> pk_max_profit k;
       ml \<leftarrow> pk_max_loss k;
       be \<leftarrow> pk_breakeven k;
       d \<leftarrow> pk_dte k;
       if w > 0 \<and> (case pk_probability_of_profit k of
                      None \<Rightarrow> True | Some pr \<Rightarrow> 0 \<le> pr \<and> pr \<le> 100)
       then Some \<lparr> ps_symbol = sym,
                   ps_spread_type = (case pk_spread_type k of
                                       None \<Rightarrow> PUT_SPREAD | Some t \<Rightarrow> t),
                   ps_short_put = sp, ps_long_put = lp, ps_strike_width = w,
                   ps_net_premium_collected = prem, ps_max_profit = mp,
                   ps_max_loss = ml, ps_breakeven = be,
                   ps_delta = pk_delta k, ps_theta = pk_theta k, ps_vega = pk_vega k,
                   ps_gamma = pk_gamma k,
                   ps_probability_of_profit = pk_probability_of_profit k,
                   ps_expected_value = pk_expected_value k, ps_dte = d \<rparr>
       else None
     }"

text \<open>
  The assignments of \<open>PutSpread.__init__\<close> after validation, in source order; each step
  takes the object as the steps before left it. \<open>if x: self.f = v\<close> leaves \<open>self\<close>
  unchanged when the test fails.
\<close>

definition PutSpread_metrics :: "PutSpread \<Rightarrow> PutSpread" where
  "PutSpread_metrics s0 =
     (let s1 = s0\<lparr> ps_strike_width := oc_strike (ps_short_put s0) - oc_strike (ps_long_put s0) \<rparr>;
          s2 = s1\<lparr> ps_max_profit := ps_net_premium_collected s1 \<rparr>;
          s3 = s2\<lparr> ps_max_loss := ps_strike_width s2 - ps_net_premium_collected s2 \<rparr>;
          s4 = s3\<lparr> ps_breakeven := oc_strike (ps_short_put s3) - ps_net_premium_collected s3 \<rparr>
      in s4)"

definition PutSpread_aggregate_delta :: "PutSpread \<Rightarrow> PutSpread" where
  "PutSpread_aggregate_delta s =
     (case both_truthy (oc_delta (ps_short_put s)) (oc_delta (ps_long_put s)) of
        Some (sh, lg) \<Rightarrow> s\<lparr> ps_delta := Some (- sh + lg) \<rparr>
      | None \<Rightarrow> s)"

definition PutSpread_aggregate_theta :: "PutSpread \<Rightarrow> PutSpread" where
  "PutSpread_aggregate_theta s =
     (case both_truthy (oc_theta (ps_short_put s)) (oc_theta (ps_long_put s)) of
        Some (sh, lg) \<Rightarrow> s\<lparr> ps_theta := Some (- sh + lg) \<rparr>
      | None \<Rightarrow> s)"

definition PutSpread_aggregate_vega :: "PutSpread \<Rightarrow> PutSpread" where
  "PutSpread_aggregate_vega s =
     (case both_truthy (oc_vega (ps_short_put s)) (oc_vega (ps_long_put s)) of
        Some (sh, lg) \<Rightarrow> s\<lparr> ps_vega := Some (- sh + lg) \<rparr>
      | None \<Rightarrow> s)"

definition PutSpread_aggregate_gamma :: "PutSpread \<Rightarrow> PutSpread" where
  "PutSpread_aggregate_gamma s =
     (case both_truthy (oc_gamma (ps_short_put s)) (oc_gamma (ps_long_put s)) of
        Some (sh, lg) \<Rightarrow> s\<lparr> ps_gamma := Some (- sh + lg) \<rparr>
      | None \<Rightarrow> s)"

definition PutSpread_probability :: "PutSpread \<Rightarrow> PutSpread" where
  "PutSpread_probability s =
     (case oc_delta (ps_short_put s) of
        Some d \<Rightarrow>
          if d \<noteq> 0 then s\<lparr> ps_probability_of_profit := Some ((1 - \<bar>d\<bar>) * 100) \<rparr> else s
      | None \<Rightarrow> s)"

definition PutSpread_post_init :: "PutSpread \<Rightarrow> PutSpread" where
  "PutSpread_post_init s0 =
     PutSpread_probability
       (PutSpread_aggregate_gamma
         (PutSpread_aggregate_vega
           (PutSpread_aggregate_theta
             (PutSpread_aggregate_delta
               (PutSpread_metrics s0)))))"

definition PutSpread_init :: "PutSpread_kwargs \<Rightarrow> py_error + PutSpread" where
  "PutSpread_init k =
     (case PutSpread_validate k of
        None \<Rightarrow> Inl ValidationError
      | Some s \<Rightarrow> Inr (PutSpread_post_init s))"

record CallSpread =
  cs_symbol :: string
  cs_spread_type :: SpreadType
  cs_long_call :: OptionContract
  cs_short_call :: OptionContract
  cs_strike_width :: real
  cs_net_debit_paid :: real
  cs_max_profit :: real
  cs_max_loss :: real
  cs_breakeven :: real
  cs_delta :: "real option"
  cs_theta :: "real option"
  cs_vega :: "real option"
  cs_gamma :: "real option"
  cs_probability_of_profit :: "real option"
  cs_expected_value :: "real option"
  cs_dte :: int

record CallSpread_kwargs =
  ck_symbol :: "string option"
  ck_spread_type :: "SpreadType option"
  ck_long_call :: "OptionContract option"
  ck_short_call :: "OptionContract option"
  ck_strike_width :: "real option"
  ck_net_debit_paid :: "real option"
  ck_max_profit :: "real option"
  ck_max_loss :: "real option"
  ck_breakeven :: "real option"
  ck_delta :: "real option"
  ck_theta :: "real option"
  ck_vega :: "real option"
  ck_gamma :: "real option"
  ck_probability_of_profit :: "real option"
  ck_expected_value :: "real option"
  ck_dte :: "int option"

definition CallSpread_validate :: "CallSpread_kwargs \<Rightarrow> CallSpread option" where
  "CallSpread_validate k =
     do {
       sym \<leftarrow> ck_symbol k;
       lc \<leftarrow> ck_long_call k;
       sc \<leftarrow> ck_short_call k;
       w \<leftarrow> ck_strike_width k;
       debit \<leftarrow> ck_net_debit_paid k;
       mp \<leftarrow> ck_max_profit k;
       ml \<leftarrow> ck_max_loss k;
       be \<leftarrow> ck_breakeven k;
       d \<leftarrow> ck_dte k;
       if w > 0
       then Some \<lparr> cs_symbol = sym,
                   cs_spread_type = (case ck_spread_type k of
                                       None \<Rightarrow> CALL_SPREAD | Some t \<Rightarrow> t),
                   cs_long_call = lc, cs_short_call = sc, cs_strike_width = w,
                   cs_net_debit_paid = debit, cs_max_profit = mp,
                   cs_max_loss = ml, cs_breakeven = be,
                   cs_delta = ck_delta k, cs_theta = ck_theta k, cs_vega = ck_vega k,
                   cs_gamma = ck_gamma k,
                   cs_probability_of_profit = ck_probability_of_profit k,
                   cs_expected_value = ck_expected_value k, cs_dte = d \<rparr>
       else None
     }"

definition CallSpread_metrics :: "CallSpread \<Rightarrow> CallSpread" where
  "CallSpread_metrics s0 =
     (let s1 = s0\<lparr> cs_strike_width := oc_strike (cs_short_call s0) - oc_strike (cs_long_call s0) \<rparr>;
          s2 = s1\<lparr> cs_max_profit := cs_strike_width s1 - cs_net_debit_paid s1 \<rparr>;
          s3 = s2\<lparr> cs_max_loss := cs_net_debit_paid s2 \<rparr>;
          s4 = s3\<lparr> cs_breakeven := oc_strike (cs_long_call s3) + cs_net_debit_paid s3 \<rparr>
      in s4)"

definition CallSpread_aggregate_delta :: "CallSpread \<Rightarrow> CallSpread" where
  "CallSpread_aggregate_delta s =
     (case both_truthy (oc_delta (cs_long_call s)) (oc_delta (cs_short_call s)) of
        Some (lg, sh) \<Rightarrow> s\<lparr> cs_delta := Some (lg - sh) \<rparr>
      | None \<Rightarrow> s)"

definition CallSpread_aggregate_theta :: "CallSpread \<Rightarrow> CallSpread" where
  "CallSpread_aggregate_theta s =
     (case both_truthy (oc_theta (cs_long_call s)) (oc_theta (cs_short_call s)) of
        Some (lg, sh) \<Rightarrow> s\<lparr> cs_theta := Some (lg - sh) \<rparr>
      | None \<Rightarrow> s)"

definition CallSpread_aggregate_vega :: "CallSpread \<Rightarrow> CallSpread" where
  "CallSpread_aggregate_vega s =
     (case both_truthy (oc_vega (cs_long_call s)) (oc_vega (cs_short_call s)) of
        Some (lg, sh) \<Rightarrow> s\<lparr> cs_vega := Some (lg - sh) \<rparr>
      | None \<Rightarrow> s)"

definition CallSpread_aggregate_gamma :: "CallSpread \<Rightarrow> CallSpread" where
  "CallSpread_aggregate_gamma s =
     (case both_truthy (oc_gamma (cs_long_call s)) (oc_gamma (cs_short_call s)) of
        Some (lg, sh) \<Rightarrow> s\<lparr> cs_gamma := Some (lg - sh) \<rparr>
      | None \<Rightarrow> s)"

definition CallSpread_probability :: "CallSpread \<Rightarrow> CallSpread" where
  "CallSpread_probability s =
     (case oc_delta (cs_long_call s) of
        Some d \<Rightarrow>
          if d \<noteq> 0 then s\<lparr> cs_probability_of_profit := Some (d * 100) \<rparr> else s
      | None \<Rightarrow> s)"

definition CallSpread_post_init :: "CallSpread \<Rightarrow> CallSpread" where
  "CallSpread_post_init s0 =
     CallSpread_probability
       (CallSpread_aggregate_gamma
         (CallSpread_aggregate_vega
           (CallSpread_aggregate_theta
             (CallSpread_aggregate_delta
               (CallSpread_metrics s0)))))"

definition CallSpread_init :: "CallSpread_kwargs \<Rightarrow> py_error + CallSpread" where
  "CallSpread_init k =
     (case CallSpread_validate k of
        None \<Rightarrow> Inl ValidationError
      | Some s \<Rightarrow> Inr (CallSpread_post_init s))"

section \<open>Spread construction (scanner/layer3_greeks.py)\<close>

text \<open>\<open>(c.bid + c.ask) / 2\<close>: adding \<open>None\<close> raises \<open>TypeError\<close>.\<close>

definition mid_price :: "OptionContract \<Rightarrow> py_error + real" where
  "mid_price c =
     (case (oc_bid c, oc_ask c) of
        (Some b, Some a) \<Rightarrow> Inr ((b + a) / 2)
      | _ \<Rightarrow> Inl TypeError)"

text \<open>\<open>c.days_to_expiration or 0\<close>.\<close>

definition days_or_zero :: "int option \<Rightarrow> int" where
  "days_or_zero d = (case d of None \<Rightarrow> 0 | Some n \<Rightarrow> if n \<noteq> 0 then n else 0)"

definition short_put_candidates :: "OptionContract list \<Rightarrow> real \<Rightarrow> OptionContract list" where
  "short_put_candidates put_contracts current_price =
     filter (\<lambda>c. (case oc_delta c of None \<Rightarrow> False
                                    | Some d \<Rightarrow> - 0.20 \<le> d \<and> d \<le> - 0.15)
                 \<and> oc_strike c < current_price
                 \<and> oc_bid c \<noteq> None
                 \<and> oc_ask c \<noteq> None)
       put_contracts"

definition long_put_candidates :: "OptionContract list \<Rightarrow> OptionContract \<Rightarrow> OptionContract list" where
  "long_put_candidates put_contracts short_put =
     filter (\<lambda>c. oc_strike c < oc_strike short_put
                 \<and> 5 \<le> oc_strike short_put - oc_strike c
                 \<and> oc_strike short_put - oc_strike c \<le> 10
                 \<and> oc_bid c \<noteq> None
                 \<and> oc_ask c \<noteq> None)
       put_contracts"

text \<open>The keyword arguments of the call \<open>PutSpread(symbol=..., short_put=..., long_put=...,
  net_premium_collected=..., dte=...)\<close>: no other keyword is passed.\<close>

definition put_spread_kwargs ::
  "string \<Rightarrow> OptionContract \<Rightarrow> OptionContract \<Rightarrow> real \<Rightarrow> PutSpread_kwargs" where
  "put_spread_kwargs symbol short_put long_put net_premium =
     \<lparr> pk_symbol = Some symbol, pk_spread_type = None,
       pk_short_put = Some short_put, pk_long_put = Some long_put,
       pk_strike_width = None, pk_net_premium_collected = Some net_premium,
       pk_max_profit = None, pk_max_loss = None, pk_breakeven = None,
       pk_delta = None, pk_theta = None, pk_vega = None, pk_gamma = None,
       pk_probability_of_profit = None, pk_expected_value = None,
       pk_dte = Some (days_or_zero (oc_days_to_expiration short_put)) \<rparr>"

text \<open>
  The body of the \<open>try\<close> block of the inner loop: \<open>Inr None\<close> is the \<open>continue\<close> on a
  non-positive premium, \<open>Inr (Some s)\<close> the spread that is appended, \<open>Inl e\<close> an
  exception (caught by \<open>except Exception: continue\<close>).
\<close>

definition put_spread_try ::
  "string \<Rightarrow> OptionContract \<Rightarrow> OptionContract \<Rightarrow> py_error + PutSpread option" where
  "put_spread_try symbol short_put long_put =
     (case mid_price short_put of
        Inl e \<Rightarrow> Inl e
      | Inr short_premium \<Rightarrow>
          (case mid_price long_put of
             Inl e \<Rightarrow> Inl e
           | Inr long_premium \<Rightarrow>
               (let net_premium = short_premium - long_premium
                in if net_premium \<le> 0 then Inr None
                   else (case PutSpread_init
                                (put_spread_kwargs symbol short_put long_put net_premium) of
                           Inl e \<Rightarrow> Inl e
                         | Inr spread \<Rightarrow> Inr (Some spread)))))"

definition appended :: "py_error + 'a option \<Rightarrow> 'a list" where
  "appended r = (case r of Inr (Some s) \<Rightarrow> [s] | Inr None \<Rightarrow> [] | Inl e \<Rightarrow> [])"

definition build_put_spreads :: "OptionContract list \<Rightarrow> real \<Rightarrow> string \<Rightarrow> PutSpread list" where
  "build_put_spreads put_contracts current_price symbol =
     concat (map (\<lambda>short_put.
                    concat (map (\<lambda>long_put. appended (put_spread_try symbol short_put long_put))
                              (long_put_candidates put_contracts short_put)))
               (short_put_candidates put_contracts current_price))"

definition long_call_candidates :: "OptionContract list \<Rightarrow> real \<Rightarrow> OptionContract list" where
  "long_call_candidates call_contracts current_price =
     filter (\<lambda>c. (case oc_delta c of None \<Rightarrow> False
                                    | Some d \<Rightarrow> 0.60 \<le> d \<and> d \<le> 0.70)
                 \<and> oc_strike c \<le> current_price * 1.05
                 \<and> oc_bid c \<noteq> None
                 \<and> oc_ask c \<noteq> None)
       call_contracts"

definition short_call_candidates :: "OptionContract list \<Rightarrow> OptionContract \<Rightarrow> OptionContract list" where
  "short_call_candidates call_contracts long_call =
     filter (\<lambda>c. oc_strike c > oc_strike long_call
                 \<and> 5 \<le> oc_strike c - oc_strike long_call
                 \<and> oc_strike c - oc_strike long_call \<le> 10
                 \<and> oc_bid c \<noteq> None
                 \<and> oc_ask c \<noteq> None)
       call_contracts"

definition call_spread_kwargs ::
  "string \<Rightarrow> OptionContract \<Rightarrow> OptionContract \<Rightarrow> real \<Rightarrow> CallSpread_kwargs" where
  "call_spread_kwargs symbol long_call short_call net_debit =
     \<lparr> ck_symbol = Some symbol, ck_spread_type = None,
       ck_long_call = Some long_call, ck_short_call = Some short_call,
       ck_strike_width = None, ck_net_debit_paid = Some net_debit,
       ck_max_profit = None, ck_max_loss = None, ck_breakeven = None,
       ck_delta = None, ck_theta = None, ck_vega = None, ck_gamma = None,
       ck_probability_of_profit = None, ck_expected_value = None,
       ck_dte = Some (days_or_zero (oc_days_to_expiration long_call)) \<rparr>"

definition call_spread_try ::
  "string \<Rightarrow> OptionContract \<Rightarrow> OptionContract \<Rightarrow> py_error + CallSpread option" where
  "call_spread_try symbol long_call short_call =
     (case mid_price long_call of
        Inl e \<Rightarrow> Inl e
      | Inr long_premium \<Rightarrow>
          (case mid_price short_call of
             Inl e \<Rightarrow> Inl e
           | Inr short_premium \<Rightarrow>
               (let net_debit = long_premium - short_premium
                in if net_debit \<le> 0 then Inr None
                   else (case CallSpread_init
                                (call_spread_kwargs symbol long_call short_call net_debit) of
                           Inl e \<Rightarrow> Inl e
                         | Inr spread \<Rightarrow> Inr (Some spread)))))"

definition build_call_spreads :: "OptionContract list \<Rightarrow> real \<Rightarrow> string \<Rightarrow> CallSpread list" where
  "build_call_spreads call_contracts current_price symbol =
     concat (map (\<lambda>long_call.
                    concat (map (\<lambda>short_call. appended (call_spread_try symbol long_call short_call))
                              (short_call_candidates call_contracts long_call)))
               (long_call_candidates call_contracts current_price))"

section \<open>Fundamentals (models/stock.py)\<close>

record StockFundamentals =
  sf_symbol :: string
  sf_company_name :: "string option"
  sf_current_price :: real
  sf_market_cap :: real
  sf_pe_ratio :: "real option"
  sf_forward_pe :: "real option"
  sf_peg_ratio :: "real option"
  sf_roe :: "real option"
  sf_profit_margin :: "real option"
  sf_operating_margin :: "real option"
  sf_debt_to_equity :: "real option"
  sf_current_ratio :: "real option"
  sf_quick_ratio :: "real option"
  sf_eps_current :: "real option"
  sf_eps_q1_ago :: "real option"
  sf_eps_q2_ago :: "real option"
  sf_revenue_growth :: "real option"
  sf_earnings_growth :: "real option"
  sf_sector :: "string option"
  sf_industry :: "string option"
  sf_correlation_to_spy :: "real option"
  sf_correlation_to_mag7 :: "real option"
  sf_beta :: "real option"
  sf_avg_volume :: "real option"
  sf_volume :: "real option"
  sf_week_52_high :: "real option"
  sf_week_52_low :: "real option"
  sf_last_updated :: int

text \<open>
  \<open>if self.eps_current and self.eps_q1_ago and self.eps_q2_ago\<close> tests truthiness: a
  reading of \<open>0.0\<close> fails it like \<open>None\<close> does.
\<close>

definition eps_growth_positive_2q :: "StockFundamentals \<Rightarrow> bool" where
  "eps_growth_positive_2q s =
     (if truthy (sf_eps_current s) \<and> truthy (sf_eps_q1_ago s) \<and> truthy (sf_eps_q2_ago s)
      then (case (sf_eps_current s, sf_eps_q1_ago s, sf_eps_q2_ago s) of
              (Some c, Some q1, Some q2) \<Rightarrow> c > q1 \<and> q1 > q2
            | _ \<Rightarrow> False)
      else False)"

text \<open>
  The failure messages are formatted strings in the source; here each is a constructor
  carrying the value the message prints.
\<close>

datatype layer1_failure =
    PE_not_in_range "real option"
  | Market_cap_below_10B real
  | Mag7_correlation_not_below "real option"
  | Sector_not_allowed "string option"
  | EPS_growth_not_positive
  | Debt_to_equity_too_high "real option"
  | ROE_too_low "real option"

definition allowed_sectors :: "string list" where
  "allowed_sectors =
     [''Financials'', ''Healthcare'', ''Consumer Staples'', ''Utilities'', ''Industrials'']"

definition passes_layer1_criteria :: "StockFundamentals \<Rightarrow> bool \<times> layer1_failure list" where
  "passes_layer1_criteria s =
     (let f1 = (if (case sf_pe_ratio s of None \<Rightarrow> True
                                         | Some pe \<Rightarrow> \<not> (8 \<le> pe \<and> pe \<le> 15))
                then [PE_not_in_range (sf_pe_ratio s)] else []);
          f2 = (if sf_market_cap s < 10000000000
                then [Market_cap_below_10B (sf_market_cap s)] else []);
          f3 = (if (case sf_correlation_to_mag7 s of None \<Rightarrow> True
                                                   | Some c \<Rightarrow> c \<ge> - 0.3)
                then [Mag7_correlation_not_below (sf_correlation_to_mag7 s)] else []);
          f4 = (if (case sf_sector s of None \<Rightarrow> True
                                        | Some sec \<Rightarrow> sec \<notin> set allowed_sectors)
                then [Sector_not_allowed (sf_sector s)] else []);
          f5 = (if \<not> eps_growth_positive_2q s then [EPS_growth_not_positive] else []);
          f6 = (if (case sf_debt_to_equity s of None \<Rightarrow> True
                                                | Some d \<Rightarrow> d \<ge> 1.5)
                then [Debt_to_equity_too_high (sf_debt_to_equity s)] else []);
          f7 = (if (case sf_roe s of None \<Rightarrow> True
                                     | Some r \<Rightarrow> r \<le> 12)
                then [ROE_too_low (sf_roe s)] else []);
          failures = f1 @ f2 @ f3 @ f4 @ f5 @ f6 @ f7
      in (failures = [], failures))"

section \<open>Trades and the portfolio (models/trade.py)\<close>

datatype TradeStatus = STATUS_PENDING | OPEN | CLOSED | EXPIRED

datatype TradeOutcome = WIN | LOSS | BREAKEVEN | OUTCOME_PENDING

record Trade =
  tr_trade_id :: string
  tr_symbol :: string
  tr_spread_type :: SpreadType
  tr_spread :: "PutSpread + CallSpread"
  tr_quantity :: int
  tr_entry_date :: int
  tr_entry_price :: real
  tr_exit_date :: "int option"
  tr_exit_price :: "real option"
  tr_current_price :: "real option"
  tr_unrealized_pnl :: "real option"
  tr_realized_pnl :: "real option"
  tr_pnl_percent :: "real option"
  tr_stop_loss :: "real option"
  tr_take_profit :: "real option"
  tr_profit_target_hit :: bool
  tr_stop_loss_hit :: bool
  tr_capital_at_risk :: real
  tr_position_size_percent :: real
  tr_status :: TradeStatus
  tr_outcome :: TradeOutcome
  tr_expected_value :: real
  tr_probability_of_profit :: real
  tr_rsp_spy_spread_at_entry :: "real option"
  tr_layer1_pass :: bool
  tr_layer2_pass :: bool
  tr_layer3_pass :: bool
  tr_layer4_pass :: bool
  tr_entry_notes :: "string option"
  tr_exit_notes :: "string option"
  tr_last_updated :: int

record Portfolio =
  pf_total_capital :: real
  pf_max_position_size_percent :: real
  pf_max_positions :: int
  pf_max_sector_positions :: int
  pf_open_trades :: "Trade list"
  pf_closed_trades :: "Trade list"
  pf_total_realized_pnl :: real
  pf_total_unrealized_pnl :: real
  pf_win_count :: int
  pf_loss_count :: int
  pf_win_rate :: real
  pf_total_return_percent :: real
  pf_capital_deployed :: real
  pf_capital_at_risk :: real
  pf_last_updated :: int

text \<open>
  \<open>add_trade\<close> mutates the portfolio and returns a flag; the model returns the flag and
  the portfolio after the call. \<open>now\<close> is the value of \<open>datetime.utcnow()\<close>.
\<close>

definition add_trade :: "Portfolio \<Rightarrow> Trade \<Rightarrow> int \<Rightarrow> bool \<times> Portfolio" where
  "add_trade self trade now =
     (if int (length (pf_open_trades self)) \<ge> pf_max_positions self then (False, self)
      else
        let max_risk = pf_total_capital self * (pf_max_position_size_percent self / 100)
        in if tr_capital_at_risk trade > max_risk then (False, self)
           else (True,
                 self\<lparr> pf_open_trades := pf_open_trades self @ [trade],
                       pf_capital_at_risk := pf_capital_at_risk self + tr_capital_at_risk trade,
                       pf_last_updated := now \<rparr>))"

section \<open>Reversion probability (calculations/spreads.py)\<close>

text \<open>
  A pandas \<open>DataFrame\<close> of float columns: the number of rows and the columns by name, each
  column holding one value per row. The index is taken to be unique, so a label's location
  is its position. The series holds finite values and its mean and standard deviation are
  exact; \<open>NaN\<close> statistics (the mean of no rows, the sample standard deviation of fewer than
  two rows) are \<open>None\<close>, and every comparison with NaN is false.
\<close>

record DataFrame =
  df_nrows :: nat
  df_columns :: "(string \<times> real list) list"

definition df_empty :: "DataFrame \<Rightarrow> bool" where
  "df_empty df = (df_nrows df = 0 \<or> df_columns df = [])"

text \<open>\<open>tail(n)\<close>: the last \<open>n\<close> rows; for a negative \<open>n\<close>, all rows but the first \<open>-n\<close>.\<close>

definition pd_tail :: "int \<Rightarrow> 'a list \<Rightarrow> 'a list" where
  "pd_tail n xs =
     (if n = 0 then []
      else if n > 0 then drop (length xs - nat n) xs
      else drop (nat (- n)) xs)"

definition df_tail :: "int \<Rightarrow> DataFrame \<Rightarrow> DataFrame" where
  "df_tail n df =
     \<lparr> df_nrows = length (pd_tail n [0..<df_nrows df]),
       df_columns = map (\<lambda>(name, col). (name, pd_tail n col)) (df_columns df) \<rparr>"

definition df_getitem :: "DataFrame \<Rightarrow> string \<Rightarrow> py_error + real list" where
  "df_getitem df name =
     (case map_of (df_columns df) name of
        None \<Rightarrow> Inl KeyError
      | Some col \<Rightarrow> Inr col)"

definition pd_mean :: "real list \<Rightarrow> real option" where
  "pd_mean xs = (if xs = [] then None else Some (sum_list xs / real (length xs)))"

definition pd_std :: "real list \<Rightarrow> real option" where
  "pd_std xs =
     (if length xs < 2 then None
      else
        let m = sum_list xs / real (length xs)
        in Some (sqrt (sum_list (map (\<lambda>x. (x - m) ^ 2) xs) / (real (length xs) - 1))))"

text \<open>
  The current spread is a float and may be NaN (the scanner passes the last value of the
  series unchecked). \<open>(current_spread - mean) / std if std > 0 else 0\<close>; a defined \<open>std\<close>
  has a defined mean.
\<close>

definition reversion_z_score :: "real list \<Rightarrow> npfloat \<Rightarrow> npfloat" where
  "reversion_z_score spread current_spread =
     (case (pd_mean spread, pd_std spread) of
        (Some mean, Some std) \<Rightarrow>
          if std > 0 then np_div (np_sub current_spread (Fin mean)) (Fin std) else Fin 0
      | _ \<Rightarrow> Fin 0)"

text \<open>\<open>spread[abs(spread - current_spread) < std * 0.5]\<close>, as the positions selected.\<close>

definition similar_extremes :: "real list \<Rightarrow> npfloat \<Rightarrow> nat list" where
  "similar_extremes spread current_spread =
     (case pd_std spread of
        None \<Rightarrow> []
      | Some std \<Rightarrow>
          filter (\<lambda>i. np_less (np_abs (np_sub (Fin (spread ! i)) current_spread))
                         (np_mul (Fin std) (Fin 0.5)))
            [0..<length spread])"

text \<open>The loop over the analogs, with the running count \<open>reversions\<close>.\<close>

fun count_reversions :: "real list \<Rightarrow> npfloat \<Rightarrow> real \<Rightarrow> nat list \<Rightarrow> nat \<Rightarrow> nat" where
  "count_reversions spread current_spread mean [] reversions = reversions"
| "count_reversions spread current_spread mean (idx # rest) reversions =
     (let future_idx = idx + 20
      in if future_idx < length spread
         then (let future_spread = Fin (spread ! future_idx)
               in if np_less (Fin mean) current_spread \<and> np_less future_spread current_spread
                  then count_reversions spread current_spread mean rest (reversions + 1)
                  else if np_less current_spread (Fin mean)
                          \<and> np_less current_spread future_spread
                  then count_reversions spread current_spread mean rest (reversions + 1)
                  else count_reversions spread current_spread mean rest reversions)
         else count_reversions spread current_spread mean rest reversions)"

definition empirical_reversion_rate :: "real list \<Rightarrow> npfloat \<Rightarrow> nat list \<Rightarrow> npfloat" where
  "empirical_reversion_rate spread current_spread similar =
     (let reversions = (case pd_mean spread of
                          None \<Rightarrow> 0
                        | Some mean \<Rightarrow> count_reversions spread current_spread mean similar 0)
      in Fin ((real reversions / real (length similar)) * 100))"

definition calculate_reversion_probability_try ::
  "DataFrame \<Rightarrow> npfloat \<Rightarrow> int \<Rightarrow> py_error + npfloat" where
  "calculate_reversion_probability_try spread_history current_spread lookback_days =
     (case df_getitem (df_tail lookback_days spread_history) ''spread'' of
        Inl e \<Rightarrow> Inl e
      | Inr spread \<Rightarrow>
          (let similar = similar_extremes spread current_spread;
               prob = (if length similar < 5
                       then py_min
                              (np_add (Fin 50)
                                 (np_mul (np_abs (reversion_z_score spread current_spread))
                                    (Fin 10)))
                              (Fin 95)
                       else empirical_reversion_rate spread current_spread similar)
           in Inr (py_min (py_max prob (Fin 30)) (Fin 95))))"

definition calculate_reversion_probability :: "DataFrame \<Rightarrow> npfloat \<Rightarrow> int \<Rightarrow> npfloat" where
  "calculate_reversion_probability spread_history current_spread lookback_days =
     (if df_empty spread_history \<or> int (df_nrows spread_history) < lookback_days
      then Fin 50
      else (case calculate_reversion_probability_try spread_history current_spread
                   lookback_days of
              Inl e \<Rightarrow> Fin 50
            | Inr prob \<Rightarrow> prob))"

section \<open>Derived notions and sample data used in the proofs\<close>

text \<open>The fields of a spread that the construction invariant speaks about.\<close>

definition ps_core ::
  "PutSpread \<Rightarrow> real \<times> real \<times> real \<times> real \<times> OptionContract \<times> OptionContract" where
  "ps_core s = (ps_strike_width s, ps_max_loss s, ps_max_profit s,
                ps_net_premium_collected s, ps_short_put s, ps_long_put s)"

definition cs_core ::
  "CallSpread \<Rightarrow> real \<times> real \<times> real \<times> real \<times> OptionContract \<times> OptionContract" where
  "cs_core s = (cs_strike_width s, cs_max_loss s, cs_max_profit s,
                cs_net_debit_paid s, cs_long_call s, cs_short_call s)"

text \<open>A quote on JPM with the given type, strike, delta, bid and ask.\<close>

definition sample_contract :: "OptionType \<Rightarrow> real \<Rightarrow> real \<Rightarrow> real \<Rightarrow> real \<Rightarrow> OptionContract" where
  "sample_contract ty k d b a =
     \<lparr> oc_symbol = ''JPM'', oc_strike = k, oc_expiration = 739000, oc_option_type = ty,
       oc_bid = Some b, oc_ask = Some a, oc_last = None, oc_mark = None,
       oc_volume = None, oc_open_interest = None,
       oc_delta = Some d, oc_gamma = None, oc_theta = None, oc_vega = None, oc_rho = None,
       oc_implied_volatility = Some 0.3, oc_iv_percentile = None,
       oc_contract_symbol = None, oc_days_to_expiration = Some 35, oc_last_updated = 0 \<rparr>"

text \<open>A constructor call that passes every required keyword.\<close>

definition sample_put_kwargs :: PutSpread_kwargs where
  "sample_put_kwargs =
     \<lparr> pk_symbol = Some ''JPM'', pk_spread_type = None,
       pk_short_put = Some (sample_contract PUT 95 (- 0.18) 1.0 1.2),
       pk_long_put = Some (sample_contract PUT 90 (- 0.10) 0.5 0.7),
       pk_strike_width = Some 1, pk_net_premium_collected = Some 0.5,
       pk_max_profit = Some 0, pk_max_loss = Some 0, pk_breakeven = Some 0,
       pk_delta = None, pk_theta = None, pk_vega = None, pk_gamma = None,
       pk_probability_of_profit = None, pk_expected_value = None,
       pk_dte = Some 35 \<rparr>"

definition sample_call_kwargs :: CallSpread_kwargs where
  "sample_call_kwargs =
     \<lparr> ck_symbol = Some ''JPM'', ck_spread_type = None,
       ck_long_call = Some (sample_contract CALL 100 0.65 4.0 4.2),
       ck_short_call = Some (sample_contract CALL 105 0.40 2.0 2.2),
       ck_strike_width = Some 1, ck_net_debit_paid = Some 2,
       ck_max_profit = Some 0, ck_max_loss = Some 0, ck_breakeven = Some 0,
       ck_delta = None, ck_theta = None, ck_vega = None, ck_gamma = None,
       ck_probability_of_profit = None, ck_expected_value = None,
       ck_dte = Some 70 \<rparr>"

text \<open>
  Fundamentals that pass every Layer-1 rule other than the EPS rule, with the three EPS
  readings left open.
\<close>

definition sample_fundamentals ::
  "real option \<Rightarrow> real option \<Rightarrow> real option \<Rightarrow> StockFundamentals" where
  "sample_fundamentals e0 e1 e2 =
     \<lparr> sf_symbol = ''JPM'', sf_company_name = Some ''JPMorgan Chase & Co.'',
       sf_current_price = 145.5, sf_market_cap = 420000000000,
       sf_pe_ratio = Some 10.5, sf_forward_pe = None, sf_peg_ratio = None,
       sf_roe = Some 15.2, sf_profit_margin = None, sf_operating_margin = None,
       sf_debt_to_equity = Some 1.2, sf_current_ratio = None, sf_quick_ratio = None,
       sf_eps_current = e0, sf_eps_q1_ago = e1, sf_eps_q2_ago = e2,
       sf_revenue_growth = None, sf_earnings_growth = None,
       sf_sector = Some ''Financials'', sf_industry = None,
       sf_correlation_to_spy = None, sf_correlation_to_mag7 = Some (- 0.35),
       sf_beta = None, sf_avg_volume = None, sf_volume = None,
       sf_week_52_high = None, sf_week_52_low = None, sf_last_updated = 0 \<rparr>"

definition sample_put_spread :: PutSpread where
  "sample_put_spread =
     \<lparr> ps_symbol = ''JPM'', ps_spread_type = PUT_SPREAD,
       ps_short_put = sample_contract PUT 95 (- 0.18) 1.0 1.2,
       ps_long_put = sample_contract PUT 90 (- 0.10) 0.5 0.7,
       ps_strike_width = 5, ps_net_premium_collected = 0.5,
       ps_max_profit = 0.5, ps_max_loss = 4.5, ps_breakeven = 94.5,
       ps_delta = Some 0.08, ps_theta = None, ps_vega = None, ps_gamma = None,
       ps_probability_of_profit = Some 82, ps_expected_value = None, ps_dte = 35 \<rparr>"

text \<open>A pending trade on the sample spread with the given identifier and capital at risk.\<close>

definition sample_trade :: "string \<Rightarrow> real \<Rightarrow> Trade" where
  "sample_trade tid risk =
     \<lparr> tr_trade_id = tid, tr_symbol = ''JPM'', tr_spread_type = PUT_SPREAD,
       tr_spread = Inl sample_put_spread, tr_quantity = 1, tr_entry_date = 0,
       tr_entry_price = 0.5, tr_exit_date = None, tr_exit_price = None,
       tr_current_price = None, tr_unrealized_pnl = None, tr_realized_pnl = None,
       tr_pnl_percent = None, tr_stop_loss = None, tr_take_profit = None,
       tr_profit_target_hit = False, tr_stop_loss_hit = False,
       tr_capital_at_risk = risk, tr_position_size_percent = risk / 100,
       tr_status = STATUS_PENDING, tr_outcome = OUTCOME_PENDING,
       tr_expected_value = 0.1, tr_probability_of_profit = 82,
       tr_rsp_spy_spread_at_entry = None,
       tr_layer1_pass = True, tr_layer2_pass = True, tr_layer3_pass = True,
       tr_layer4_pass = True, tr_entry_notes = None, tr_exit_notes = None,
       tr_last_updated = 0 \<rparr>"

text \<open>A portfolio of 10000 with the default limits and the given open trades.\<close>

definition sample_portfolio :: "int \<Rightarrow> Trade list \<Rightarrow> real \<Rightarrow> Portfolio" where
  "sample_portfolio max_pos opened at_risk =
     \<lparr> pf_total_capital = 10000, pf_max_position_size_percent = 2.5,
       pf_max_positions = max_pos, pf_max_sector_positions = 3,
       pf_open_trades = opened, pf_closed_trades = [],
       pf_total_realized_pnl = 0, pf_total_unrealized_pnl = 0,
       pf_win_count = 0, pf_loss_count = 0, pf_win_rate = 0,
       pf_total_return_percent = 0, pf_capital_deployed = 0,
       pf_capital_at_risk = at_risk, pf_last_updated = 0 \<rparr>"

text \<open>A history frame whose only column is the spread series.\<close>

definition sample_history :: "real list \<Rightarrow> DataFrame" where
  "sample_history xs = \<lparr> df_nrows = length xs, df_columns = [(''spread'', xs)] \<rparr>"

section \<open>Properties of float arithmetic\<close>

lemma float_thresholds:
  "0 < float_underflow" "float_underflow < 1" "1 < float_overflow"
  by (simp_all add: float_underflow_def float_overflow_def)

lemma round_sum_in_range:
  "\<bar>x\<bar> < float_overflow \<Longrightarrow> round_sum x = Fin x"
  by (auto simp: round_sum_def)

lemma round_prod_in_range:
  "float_underflow < \<bar>x\<bar> \<Longrightarrow> \<bar>x\<bar> < float_overflow \<Longrightarrow> round_prod x = Fin x"
  by (auto simp: round_prod_def)

lemma round_zero: "round_prod 0 = Fin 0" "round_sum 0 = Fin 0"
  using float_thresholds by (simp_all add: round_prod_def round_sum_def)

lemma round_prod_unit:
  assumes "0 \<le> c" and "c \<le> 1"
  shows "\<exists>a. round_prod c = Fin a \<and> 0 \<le> a \<and> a \<le> 1"
  using assms float_thresholds by (auto simp: round_prod_def)

lemma py_max_min_clamp:
  assumes "0 \<le> c"
  shows "\<exists>v. py_max (Fin 0) (py_min x (Fin c)) = Fin v \<and> 0 \<le> v \<and> v \<le> c"
  using assms by (cases x) (auto simp: py_max_def py_min_def)

section \<open>Properties of the expected-value calculations\<close>

lemma credit_ev_example:
  "expected_value (calculate_credit_spread_ev 0.25 4.75 82) = - 0.65"
  by (simp add: calculate_credit_spread_ev_def Let_def)

lemma credit_ev_example_percent:
  "ev_percent (calculate_credit_spread_ev 0.25 4.75 82) = - (1300 / 95)"
  by (simp add: calculate_credit_spread_ev_def Let_def)




text \<open>
  Whenever \<open>kelly_criterion\<close> returns, the value is a number in [0, 0.05]: the clamp also
  absorbs an infinite or NaN intermediate result.
\<close>

lemma kelly_range:
  assumes "kelly_criterion p win_amt loss_amt = Inr v"
  shows "\<exists>f. v = Fin f \<and> 0 \<le> f \<and> f \<le> 0.05"
proof (cases "loss_amt = 0")
  case True
  with assms have "v = Fin 0" by (simp add: kelly_criterion_def)
  then have "v = Fin 0 \<and> (0::real) \<le> 0 \<and> (0::real) \<le> 0.05" by simp
  then show ?thesis by blast
next
  case False
  with assms obtain x where "v = py_max (Fin 0) (py_min x (Fin 0.05))"
    by (auto simp: kelly_criterion_def Let_def split: if_splits)
  moreover have "(0::real) \<le> 0.05" by simp
  ultimately show ?thesis using py_max_min_clamp [of "0.05" x] by metis
qed

lemma kelly_raises_iff:
  "kelly_criterion p win_amt loss_amt = Inl e \<longleftrightarrow>
     e = ZeroDivisionError \<and> loss_amt \<noteq> 0 \<and> round_prod (win_amt / loss_amt) = Fin 0"
  by (auto simp: kelly_criterion_def Let_def)

lemma kelly_example_positive:
  "kelly_criterion 0.82 12.5 50 = Inr (Fin (1 / 40))"
  by (simp add: kelly_criterion_def Let_def round_prod_def round_sum_def np_sub_def
        py_min_def py_max_def float_overflow_def float_underflow_def)

lemma kelly_example_clamped:
  "kelly_criterion 0.4 12.5 50 = Inr (Fin 0)"
  by (simp add: kelly_criterion_def Let_def round_prod_def round_sum_def np_sub_def
        py_min_def py_max_def float_overflow_def float_underflow_def)

lemma kelly_underflow_raises:
  "kelly_criterion 0.5 (1 / 2 ^ 1000) (2 ^ 100) = Inl ZeroDivisionError"
  by (simp add: kelly_criterion_def Let_def round_prod_def
        float_overflow_def float_underflow_def)

text \<open>
  C2. The claim promises a value in [0, 0.05] for every win amount once the loss amount
  is non-zero. The source guards \<open>loss_amount == 0\<close> only: with a win amount of zero the
  ratio \<open>b\<close> is zero and \<open>(b * p - q) / b\<close> raises \<open>ZeroDivisionError\<close>.
\<close>

theorem C2_kelly_zero_win_raises:
  "kelly_criterion 0.5 0 50 = Inl ZeroDivisionError"
  by (simp add: kelly_criterion_def Let_def round_zero)

section \<open>Properties of the Greeks engine\<close>

lemma lower_call: "lower ''call'' = ''call''"
  by (simp add: lower_def lower_char_def)

lemma lower_put: "lower ''put'' \<noteq> ''call''"
  by (simp add: lower_def lower_char_def)

text \<open>
  C3. When the time to expiration is zero or negative, the result is the intrinsic-value
  limit whatever the spot, strike, rate, volatility and option type: delta is 1 if
  spot > strike else 0 for a call, -1 if spot < strike else 0 otherwise (a put), and
  gamma, theta, vega and rho are 0. The right-hand side mentions neither the rate nor the
  volatility nor the normal distribution: the closed-form formula is not evaluated.
\<close>

theorem C3_expired_intrinsic_limit:
  assumes "time_to_expiration \<le> 0"
  shows "calculate_all_greeks spot_price strike_price time_to_expiration
           risk_free_rate implied_volatility option_type =
         \<lparr> delta = Some (Fin (if lower option_type = ''call''
                              then (if spot_price > strike_price then 1 else 0)
                              else (if spot_price < strike_price then - 1 else 0))),
           gamma = Some (Fin 0), theta = Some (Fin 0),
           vega = Some (Fin 0), rho = Some (Fin 0) \<rparr>"
  using assms
  by (simp add: calculate_all_greeks_def calculate_all_greeks_try_def Let_def)

theorem C3_expired_intrinsic_limit_witness:
  "calculate_all_greeks 105 100 0 0.05 0.2 ''call'' =
     \<lparr> delta = Some (Fin 1), gamma = Some (Fin 0), theta = Some (Fin 0),
       vega = Some (Fin 0), rho = Some (Fin 0) \<rparr>
   \<and> calculate_all_greeks 95 100 (- 1) 0.05 0 ''put'' =
     \<lparr> delta = Some (Fin (- 1)), gamma = Some (Fin 0), theta = Some (Fin 0),
       vega = Some (Fin 0), rho = Some (Fin 0) \<rparr>"
proof -
  have a: "(0::real) \<le> 0" and b: "(- 1::real) \<le> 0" by simp_all
  show ?thesis
    using C3_expired_intrinsic_limit [OF a, of 105 100 "0.05" "0.2" "''call''"]
          C3_expired_intrinsic_limit [OF b, of 95 100 "0.05" 0 "''put''"]
    by (simp add: lower_call lower_put)
qed

text \<open>
  With a positive time to expiration the Greeks are reported as unavailable exactly when
  the strike is zero or the square of the volatility overflows.
\<close>

lemma d1_raises_iff:
  "(\<exists>e. greeks_d1 s k t r iv = Inl e) \<longleftrightarrow> k = 0 \<or> iv ^ 2 \<ge> float_overflow"
  by (auto simp: greeks_d1_def py_truediv_def py_pow2_def)

lemma unavailable_iff_d1_raises:
  assumes "0 < t"
  shows "calculate_all_greeks s k t r iv ot = greeks_unavailable
           \<longleftrightarrow> (\<exists>e. greeks_d1 s k t r iv = Inl e)"
  using assms
  by (auto simp: calculate_all_greeks_def calculate_all_greeks_try_def Let_def
        greeks_unavailable_def split: sum.splits prod.splits)

lemma delta_unavailable:
  assumes "0 < t" and "greeks_d1 s k t r iv = Inl e"
  shows "calculate_delta s k t r iv ot = None"
  using assms
  by (simp add: calculate_delta_def calculate_all_greeks_def calculate_all_greeks_try_def
        greeks_unavailable_def)

text \<open>Delta and gamma in terms of \<open>d1\<close>.\<close>

lemma delta_gamma_from_d1:
  assumes "0 < t" and "greeks_d1 s k t r iv = Inr d1"
  shows "calculate_delta s k t r iv ''call'' = Some (norm_cdf d1)"
    and "calculate_delta s k t r iv ''put'' = Some (np_sub (norm_cdf d1) (Fin 1))"
    and "gamma (calculate_all_greeks s k t r iv ot)
           = Some (np_div (norm_pdf d1) (np_mul (np_mul (Fin s) (Fin iv)) (np_sqrt t)))"
  using assms
  by (simp_all add: calculate_delta_def calculate_all_greeks_def calculate_all_greeks_try_def
        Let_def lower_call lower_put split: prod.splits)

lemma d1_zero_volatility: "greeks_d1 100 100 1 0.05 0 = Inr PInf"
  by (simp add: greeks_d1_def py_truediv_def py_pow2_def np_sqrt_def round_prod_def
        round_sum_def float_overflow_def float_underflow_def)

lemma d1_negative_spot: "greeks_d1 (- 50) 100 1 0.05 0.2 = Inr NaN"
  by (simp add: greeks_d1_def py_truediv_def py_pow2_def np_sqrt_def round_prod_def
        round_sum_def float_overflow_def float_underflow_def power2_eq_square)

lemma d1_sample: "greeks_d1 100 100 1 0.05 0.2 = Inr (Fin 0.35)"
  by (simp add: greeks_d1_def py_truediv_def py_pow2_def np_sqrt_def round_prod_def
        round_sum_def float_overflow_def float_underflow_def power2_eq_square)

lemma d1_huge_volatility: "greeks_d1 100 100 1 0.05 (2 ^ 600) = Inl OverflowError"
  by (simp add: greeks_d1_def py_truediv_def py_pow2_def round_prod_def
        float_overflow_def float_underflow_def)

text \<open>
  C4. The claim promises the all-\<open>None\<close> outcome on every degenerate input with a positive
  time to expiration. Only a zero strike and an overflowing square of the volatility raise
  (Python's division and power); numpy neither raises on a zero volatility nor on the
  logarithm of a negative ratio, so the \<open>except\<close> branch is not reached and NaN values are
  returned: with volatility 0 gamma is 0/0, and with a negative spot every Greek derived
  from \<open>d1\<close> is NaN.
\<close>

theorem C4_degenerate_inputs_return_nan:
  "gamma (calculate_all_greeks 100 100 1 0.05 0 ''call'') = Some NaN
   \<and> delta (calculate_all_greeks 100 100 1 0.05 0 ''call'') = Some (Fin 1)
   \<and> delta (calculate_all_greeks (- 50) 100 1 0.05 0.2 ''put'') = Some NaN
   \<and> gamma (calculate_all_greeks (- 50) 100 1 0.05 0.2 ''put'') = Some NaN"
proof -
  have t: "(0::real) < 1" by simp
  note z = delta_gamma_from_d1 [OF t d1_zero_volatility]
  note n = delta_gamma_from_d1 [OF t d1_negative_spot]
  have "gamma (calculate_all_greeks 100 100 1 0.05 0 ''call'') = Some NaN"
    unfolding z(3) by (simp add: np_sqrt_def round_zero)
  moreover have "delta (calculate_all_greeks 100 100 1 0.05 0 ''call'') = Some (Fin 1)"
    using z(1) by (simp add: calculate_delta_def)
  moreover have "delta (calculate_all_greeks (- 50) 100 1 0.05 0.2 ''put'') = Some NaN"
    using n(2) by (simp add: calculate_delta_def np_sub_def)
  moreover have "gamma (calculate_all_greeks (- 50) 100 1 0.05 0.2 ''put'') = Some NaN"
    unfolding n(3) by simp
  ultimately show ?thesis by blast
qed

lemma norm_cdf_unit:
  assumes "norm_cdf d = Fin a"
  shows "0 \<le> a \<and> a \<le> 1"
proof (cases d)
  case (Fin x)
  have "0 \<le> max 0 (min 1 (std_normal_cdf x))" and "max 0 (min 1 (std_normal_cdf x)) \<le> 1"
    by simp_all
  from round_prod_unit [OF this] assms Fin show ?thesis by auto
qed (use assms in auto)

lemma norm_cdf_numeric_iff: "(\<exists>a. norm_cdf d = Fin a) \<longleftrightarrow> d \<noteq> NaN"
proof (cases d)
  case (Fin x)
  have "0 \<le> max 0 (min 1 (std_normal_cdf x))" and "max 0 (min 1 (std_normal_cdf x)) \<le> 1"
    by simp_all
  from round_prod_unit [OF this] Fin show ?thesis by auto
qed simp_all

text \<open>
  With a positive time to expiration the call delta returned is a number exactly when
  \<open>d1\<close> is computed without an exception and is not NaN.
\<close>

lemma numeric_call_delta_iff:
  assumes "0 < t"
  shows "(\<exists>a. calculate_delta s k t r iv ''call'' = Some (Fin a))
           \<longleftrightarrow> (\<exists>d1. greeks_d1 s k t r iv = Inr d1 \<and> d1 \<noteq> NaN)"
proof (cases "greeks_d1 s k t r iv")
  case (Inl e)
  with delta_unavailable [OF assms Inl, of "''call''"] show ?thesis by simp
next
  case (Inr d1)
  with delta_gamma_from_d1(1) [OF assms Inr] norm_cdf_numeric_iff [of d1]
  show ?thesis by simp
qed

lemma put_delta_of_call_delta:
  assumes "0 \<le> a" and "a \<le> 1"
  shows "np_sub (Fin a) (Fin 1) = Fin (a - 1)"
    and "np_sub (Fin a) (Fin (a - 1)) = Fin 1"
proof -
  have "\<bar>a - 1\<bar> < float_overflow" using assms float_thresholds by simp
  then show "np_sub (Fin a) (Fin 1) = Fin (a - 1)"
    by (simp add: np_sub_def round_sum_in_range)
  have "\<bar>1::real\<bar> < float_overflow" using float_thresholds by simp
  then have "round_sum 1 = Fin 1" by (rule round_sum_in_range)
  then show "np_sub (Fin a) (Fin (a - 1)) = Fin 1"
    by (simp add: np_sub_def)
qed

text \<open>
  C7 (amended). For matched inputs with a positive time to expiration on which the call
  delta returned is a number (neither \<open>None\<close>, the unavailable outcome, nor NaN), the put
  delta returned is that number minus 1, and the call delta minus the put delta is 1.
\<close>

theorem C7_call_put_delta_identity:
  assumes "0 < time_to_expiration"
    and "calculate_delta spot_price strike_price time_to_expiration
           risk_free_rate implied_volatility ''call'' = Some (Fin a)"
  shows "calculate_delta spot_price strike_price time_to_expiration
           risk_free_rate implied_volatility ''put'' = Some (Fin (a - 1))
         \<and> delta_difference
             (calculate_delta spot_price strike_price time_to_expiration
                risk_free_rate implied_volatility ''call'')
             (calculate_delta spot_price strike_price time_to_expiration
                risk_free_rate implied_volatility ''put'')
           = Inr (Fin 1)"
proof -
  have "calculate_all_greeks spot_price strike_price time_to_expiration
          risk_free_rate implied_volatility ''call'' \<noteq> greeks_unavailable"
    using assms(2) by (auto simp: calculate_delta_def greeks_unavailable_def)
  with unavailable_iff_d1_raises [OF assms(1)]
  obtain d1 where d1: "greeks_d1 spot_price strike_price time_to_expiration
                         risk_free_rate implied_volatility = Inr d1"
    by (metis sum.exhaust)
  note f = delta_gamma_from_d1 [OF assms(1) d1]
  from f(1) assms(2) have c: "norm_cdf d1 = Fin a" by simp
  from norm_cdf_unit [OF c] have r: "0 \<le> a" "a \<le> 1" by simp_all
  have put: "calculate_delta spot_price strike_price time_to_expiration
               risk_free_rate implied_volatility ''put'' = Some (Fin (a - 1))"
    unfolding f(2) c using put_delta_of_call_delta(1) [OF r] by simp
  show ?thesis
    unfolding put assms(2) delta_difference_def
    using put_delta_of_call_delta(2) [OF r] by simp
qed

theorem C7_call_put_delta_identity_witness:
  "(\<exists>a. calculate_delta 100 100 1 0.05 0.2 ''call'' = Some (Fin a)
        \<and> calculate_delta 100 100 1 0.05 0.2 ''put'' = Some (Fin (a - 1)))
   \<and> delta_difference (calculate_delta 100 100 1 0.05 0.2 ''call'')
        (calculate_delta 100 100 1 0.05 0.2 ''put'') = Inr (Fin 1)
   \<and> calculate_delta 100 100 1 0.05 0 ''call'' = Some (Fin 1)
   \<and> calculate_delta 100 100 1 0.05 0 ''put'' = Some (Fin 0)
   \<and> delta_difference (calculate_delta 100 100 1 0.05 0 ''call'')
        (calculate_delta 100 100 1 0.05 0 ''put'') = Inr (Fin 1)"
proof -
  have t: "(0::real) < 1" by simp
  have "0 \<le> max 0 (min 1 (std_normal_cdf 0.35))" and "max 0 (min 1 (std_normal_cdf 0.35)) \<le> 1"
    by simp_all
  from round_prod_unit [OF this] obtain a where "norm_cdf (Fin 0.35) = Fin a" by auto
  with delta_gamma_from_d1(1) [OF t d1_sample]
  have call: "calculate_delta 100 100 1 0.05 0.2 ''call'' = Some (Fin a)" by simp
  have call0: "calculate_delta 100 100 1 0.05 0 ''call'' = Some (Fin 1)"
    using delta_gamma_from_d1(1) [OF t d1_zero_volatility] by simp
  from C7_call_put_delta_identity [OF t call] C7_call_put_delta_identity [OF t call0] call call0
  show ?thesis by auto
qed

text \<open>
  The identity as the claim states it, for every matched input with a positive time to
  expiration, fails inside the engine's contract (positive spot and strike, non-negative
  volatility) at a volatility of \<open>2^600\<close>: its square overflows, \<open>**\<close> raises, the \<open>except\<close>
  branch reports both deltas as \<open>None\<close>, and their difference is not 1.
\<close>

theorem C7_volatility_overflow_counterexample:
  "calculate_delta 100 100 1 0.05 (2 ^ 600) ''call'' = None
   \<and> calculate_delta 100 100 1 0.05 (2 ^ 600) ''put'' = None
   \<and> delta_difference (calculate_delta 100 100 1 0.05 (2 ^ 600) ''call'')
        (calculate_delta 100 100 1 0.05 (2 ^ 600) ''put'') \<noteq> Inr (Fin 1)"
proof -
  have t: "(0::real) < 1" by simp
  note u = delta_unavailable [OF t d1_huge_volatility]
  show ?thesis unfolding u delta_difference_def by simp
qed

section \<open>Properties of spread construction\<close>

lemma ps_core_greeks:
  "ps_core (PutSpread_aggregate_delta s) = ps_core s"
  "ps_core (PutSpread_aggregate_theta s) = ps_core s"
  "ps_core (PutSpread_aggregate_vega s) = ps_core s"
  "ps_core (PutSpread_aggregate_gamma s) = ps_core s"
  "ps_core (PutSpread_probability s) = ps_core s"
  by (simp_all add: ps_core_def PutSpread_aggregate_delta_def PutSpread_aggregate_theta_def
        PutSpread_aggregate_vega_def PutSpread_aggregate_gamma_def PutSpread_probability_def
        split: option.split prod.split)

lemma ps_core_metrics:
  "ps_core (PutSpread_metrics s0) =
     (oc_strike (ps_short_put s0) - oc_strike (ps_long_put s0),
      oc_strike (ps_short_put s0) - oc_strike (ps_long_put s0) - ps_net_premium_collected s0,
      ps_net_premium_collected s0, ps_net_premium_collected s0,
      ps_short_put s0, ps_long_put s0)"
  by (simp add: ps_core_def PutSpread_metrics_def Let_def)

lemma ps_core_post_init:
  "ps_core (PutSpread_post_init s0) =
     (oc_strike (ps_short_put s0) - oc_strike (ps_long_put s0),
      oc_strike (ps_short_put s0) - oc_strike (ps_long_put s0) - ps_net_premium_collected s0,
      ps_net_premium_collected s0, ps_net_premium_collected s0,
      ps_short_put s0, ps_long_put s0)"
  by (simp only: PutSpread_post_init_def ps_core_greeks ps_core_metrics)

lemma PutSpread_validate_fields:
  assumes "PutSpread_validate k = Some s0"
  shows "pk_net_premium_collected k = Some (ps_net_premium_collected s0)"
    and "pk_short_put k = Some (ps_short_put s0)"
    and "pk_long_put k = Some (ps_long_put s0)"
    and "pk_strike_width k \<noteq> None"
  using assms
  by (auto simp: PutSpread_validate_def bind_eq_Some_conv split: if_splits)

lemma PutSpread_init_fields:
  assumes "PutSpread_init k = Inr s"
  shows "ps_strike_width s = oc_strike (ps_short_put s) - oc_strike (ps_long_put s)"
    and "ps_max_loss s = ps_strike_width s - ps_net_premium_collected s"
    and "ps_max_profit s = ps_net_premium_collected s"
    and "pk_net_premium_collected k = Some (ps_net_premium_collected s)"
    and "pk_short_put k = Some (ps_short_put s)"
    and "pk_long_put k = Some (ps_long_put s)"
proof -
  from assms obtain s0 where v: "PutSpread_validate k = Some s0"
    and s: "s = PutSpread_post_init s0"
    by (auto simp: PutSpread_init_def split: option.splits)
  have c: "ps_core s =
     (oc_strike (ps_short_put s0) - oc_strike (ps_long_put s0),
      oc_strike (ps_short_put s0) - oc_strike (ps_long_put s0) - ps_net_premium_collected s0,
      ps_net_premium_collected s0, ps_net_premium_collected s0,
      ps_short_put s0, ps_long_put s0)"
    unfolding s by (rule ps_core_post_init)
  from c show "ps_strike_width s = oc_strike (ps_short_put s) - oc_strike (ps_long_put s)"
    by (simp add: ps_core_def)
  from c show "ps_max_loss s = ps_strike_width s - ps_net_premium_collected s"
    by (simp add: ps_core_def)
  from c show "ps_max_profit s = ps_net_premium_collected s"
    by (simp add: ps_core_def)
  from c PutSpread_validate_fields(1) [OF v]
  show "pk_net_premium_collected k = Some (ps_net_premium_collected s)"
    by (simp add: ps_core_def)
  from c PutSpread_validate_fields(2) [OF v]
  show "pk_short_put k = Some (ps_short_put s)"
    by (simp add: ps_core_def)
  from c PutSpread_validate_fields(3) [OF v]
  show "pk_long_put k = Some (ps_long_put s)"
    by (simp add: ps_core_def)
qed

lemma cs_core_greeks:
  "cs_core (CallSpread_aggregate_delta s) = cs_core s"
  "cs_core (CallSpread_aggregate_theta s) = cs_core s"
  "cs_core (CallSpread_aggregate_vega s) = cs_core s"
  "cs_core (CallSpread_aggregate_gamma s) = cs_core s"
  "cs_core (CallSpread_probability s) = cs_core s"
  by (simp_all add: cs_core_def CallSpread_aggregate_delta_def CallSpread_aggregate_theta_def
        CallSpread_aggregate_vega_def CallSpread_aggregate_gamma_def CallSpread_probability_def
        split: option.split prod.split)

lemma cs_core_metrics:
  "cs_core (CallSpread_metrics s0) =
     (oc_strike (cs_short_call s0) - oc_strike (cs_long_call s0),
      cs_net_debit_paid s0,
      oc_strike (cs_short_call s0) - oc_strike (cs_long_call s0) - cs_net_debit_paid s0,
      cs_net_debit_paid s0, cs_long_call s0, cs_short_call s0)"
  by (simp add: cs_core_def CallSpread_metrics_def Let_def)

lemma cs_core_post_init:
  "cs_core (CallSpread_post_init s0) =
     (oc_strike (cs_short_call s0) - oc_strike (cs_long_call s0),
      cs_net_debit_paid s0,
      oc_strike (cs_short_call s0) - oc_strike (cs_long_call s0) - cs_net_debit_paid s0,
      cs_net_debit_paid s0, cs_long_call s0, cs_short_call s0)"
  by (simp only: CallSpread_post_init_def cs_core_greeks cs_core_metrics)

lemma CallSpread_validate_fields:
  assumes "CallSpread_validate k = Some s0"
  shows "ck_net_debit_paid k = Some (cs_net_debit_paid s0)"
    and "ck_long_call k = Some (cs_long_call s0)"
    and "ck_short_call k = Some (cs_short_call s0)"
    and "ck_strike_width k \<noteq> None"
  using assms
  by (auto simp: CallSpread_validate_def bind_eq_Some_conv split: if_splits)

lemma CallSpread_init_fields:
  assumes "CallSpread_init k = Inr s"
  shows "cs_strike_width s = oc_strike (cs_short_call s) - oc_strike (cs_long_call s)"
    and "cs_max_profit s = cs_strike_width s - cs_net_debit_paid s"
    and "cs_max_loss s = cs_net_debit_paid s"
    and "ck_net_debit_paid k = Some (cs_net_debit_paid s)"
    and "ck_long_call k = Some (cs_long_call s)"
    and "ck_short_call k = Some (cs_short_call s)"
proof -
  from assms obtain s0 where v: "CallSpread_validate k = Some s0"
    and s: "s = CallSpread_post_init s0"
    by (auto simp: CallSpread_init_def split: option.splits)
  have c: "cs_core s =
     (oc_strike (cs_short_call s0) - oc_strike (cs_long_call s0),
      cs_net_debit_paid s0,
      oc_strike (cs_short_call s0) - oc_strike (cs_long_call s0) - cs_net_debit_paid s0,
      cs_net_debit_paid s0, cs_long_call s0, cs_short_call s0)"
    unfolding s by (rule cs_core_post_init)
  from c show "cs_strike_width s = oc_strike (cs_short_call s) - oc_strike (cs_long_call s)"
    by (simp add: cs_core_def)
  from c show "cs_max_profit s = cs_strike_width s - cs_net_debit_paid s"
    by (simp add: cs_core_def)
  from c show "cs_max_loss s = cs_net_debit_paid s"
    by (simp add: cs_core_def)
  from c CallSpread_validate_fields(1) [OF v]
  show "ck_net_debit_paid k = Some (cs_net_debit_paid s)"
    by (simp add: cs_core_def)
  from c CallSpread_validate_fields(2) [OF v]
  show "ck_long_call k = Some (cs_long_call s)"
    by (simp add: cs_core_def)
  from c CallSpread_validate_fields(3) [OF v]
  show "ck_short_call k = Some (cs_short_call s)"
    by (simp add: cs_core_def)
qed

text \<open>
  C5. After a successful construction the strike width is the short strike minus the long
  strike of the two legs; a put (credit) spread has maximum loss equal to width minus
  premium and maximum profit equal to the premium; a call (debit) spread has maximum
  profit equal to width minus debit and maximum loss equal to the debit.
\<close>

theorem C5_spread_invariants:
  "(PutSpread_init pk = Inr p \<longrightarrow>
      ps_strike_width p = oc_strike (ps_short_put p) - oc_strike (ps_long_put p)
      \<and> ps_max_loss p = ps_strike_width p - ps_net_premium_collected p
      \<and> ps_max_profit p = ps_net_premium_collected p)
   \<and> (CallSpread_init ck = Inr c \<longrightarrow>
      cs_strike_width c = oc_strike (cs_short_call c) - oc_strike (cs_long_call c)
      \<and> cs_max_profit c = cs_strike_width c - cs_net_debit_paid c
      \<and> cs_max_loss c = cs_net_debit_paid c)"
  using PutSpread_init_fields(1,2,3) [of pk p] CallSpread_init_fields(1,2,3) [of ck c]
  by blast

lemma sample_put_constructed:
  "\<exists>p. PutSpread_init sample_put_kwargs = Inr p
       \<and> ps_short_put p = sample_contract PUT 95 (- 0.18) 1.0 1.2
       \<and> ps_long_put p = sample_contract PUT 90 (- 0.10) 0.5 0.7
       \<and> ps_net_premium_collected p = 0.5"
proof -
  obtain p where p: "PutSpread_init sample_put_kwargs = Inr p"
    by (simp add: PutSpread_init_def PutSpread_validate_def sample_put_kwargs_def)
  from PutSpread_init_fields(4,5,6) [OF p] have
    "ps_short_put p = sample_contract PUT 95 (- 0.18) 1.0 1.2"
    "ps_long_put p = sample_contract PUT 90 (- 0.10) 0.5 0.7"
    "ps_net_premium_collected p = 0.5"
    by (simp_all add: sample_put_kwargs_def)
  with p show ?thesis by blast
qed

lemma sample_call_constructed:
  "\<exists>c. CallSpread_init sample_call_kwargs = Inr c
       \<and> cs_long_call c = sample_contract CALL 100 0.65 4.0 4.2
       \<and> cs_short_call c = sample_contract CALL 105 0.40 2.0 2.2
       \<and> cs_net_debit_paid c = 2"
proof -
  obtain c where c: "CallSpread_init sample_call_kwargs = Inr c"
    by (simp add: CallSpread_init_def CallSpread_validate_def sample_call_kwargs_def)
  from CallSpread_init_fields(4,5,6) [OF c] have
    "cs_long_call c = sample_contract CALL 100 0.65 4.0 4.2"
    "cs_short_call c = sample_contract CALL 105 0.40 2.0 2.2"
    "cs_net_debit_paid c = 2"
    by (simp_all add: sample_call_kwargs_def)
  with c show ?thesis by blast
qed

theorem C5_spread_invariants_witness:
  "(\<exists>p. PutSpread_init sample_put_kwargs = Inr p
        \<and> ps_strike_width p = 5 \<and> ps_max_loss p = 4.5 \<and> ps_max_profit p = 0.5)
   \<and> (\<exists>c. CallSpread_init sample_call_kwargs = Inr c
        \<and> cs_strike_width c = 5 \<and> cs_max_profit c = 3 \<and> cs_max_loss c = 2)"
proof -
  from sample_put_constructed obtain p where
    p: "PutSpread_init sample_put_kwargs = Inr p"
    and pl: "ps_short_put p = sample_contract PUT 95 (- 0.18) 1.0 1.2"
            "ps_long_put p = sample_contract PUT 90 (- 0.10) 0.5 0.7"
            "ps_net_premium_collected p = 0.5"
    by blast
  from sample_call_constructed obtain c where
    c: "CallSpread_init sample_call_kwargs = Inr c"
    and cl: "cs_long_call c = sample_contract CALL 100 0.65 4.0 4.2"
            "cs_short_call c = sample_contract CALL 105 0.40 2.0 2.2"
            "cs_net_debit_paid c = 2"
    by blast
  from C5_spread_invariants [of sample_put_kwargs p sample_call_kwargs c] p c
  have inv: "ps_strike_width p = oc_strike (ps_short_put p) - oc_strike (ps_long_put p)"
    "ps_max_loss p = ps_strike_width p - ps_net_premium_collected p"
    "ps_max_profit p = ps_net_premium_collected p"
    "cs_strike_width c = oc_strike (cs_short_call c) - oc_strike (cs_long_call c)"
    "cs_max_profit c = cs_strike_width c - cs_net_debit_paid c"
    "cs_max_loss c = cs_net_debit_paid c"
    by blast+
  have "ps_strike_width p = 5 \<and> ps_max_loss p = 4.5 \<and> ps_max_profit p = 0.5"
    using inv(1,2,3) pl by (simp add: sample_contract_def)
  moreover have "cs_strike_width c = 5 \<and> cs_max_profit c = 3 \<and> cs_max_loss c = 2"
    using inv(4,5,6) cl by (simp add: sample_contract_def)
  ultimately show ?thesis using p c by blast
qed

lemma appended_Some: "s \<in> set (appended r) \<Longrightarrow> r = Inr (Some s)"
  by (auto simp: appended_def split: sum.splits option.splits)

lemma put_spread_try_Some:
  assumes "put_spread_try symbol sp lp = Inr (Some s)"
  shows "\<exists>a b. mid_price sp = Inr a \<and> mid_price lp = Inr b \<and> a - b > 0
           \<and> PutSpread_init (put_spread_kwargs symbol sp lp (a - b)) = Inr s"
  using assms
  by (auto simp: put_spread_try_def Let_def split: sum.splits if_splits)

lemma put_spread_try_result:
  assumes "put_spread_try symbol sp lp = Inr (Some s)"
  shows "ps_net_premium_collected s > 0
         \<and> (\<exists>a b. mid_price (ps_short_put s) = Inr a \<and> mid_price (ps_long_put s) = Inr b
                \<and> ps_net_premium_collected s = a - b)"
proof -
  from put_spread_try_Some [OF assms] obtain a b where
    m: "mid_price sp = Inr a" "mid_price lp = Inr b" and pos: "a - b > 0"
    and i: "PutSpread_init (put_spread_kwargs symbol sp lp (a - b)) = Inr s"
    by blast
  from PutSpread_init_fields(4,5,6) [OF i]
  have "ps_net_premium_collected s = a - b" "ps_short_put s = sp" "ps_long_put s = lp"
    by (simp_all add: put_spread_kwargs_def)
  with m pos show ?thesis by simp
qed

lemma build_put_spreads_member:
  assumes "s \<in> set (build_put_spreads put_contracts current_price symbol)"
  shows "\<exists>sp lp. sp \<in> set (short_put_candidates put_contracts current_price)
           \<and> lp \<in> set (long_put_candidates put_contracts sp)
           \<and> put_spread_try symbol sp lp = Inr (Some s)"
  using assms by (auto simp: build_put_spreads_def dest: appended_Some)

lemma call_spread_try_Some:
  assumes "call_spread_try symbol lc sc = Inr (Some s)"
  shows "\<exists>a b. mid_price lc = Inr a \<and> mid_price sc = Inr b \<and> a - b > 0
           \<and> CallSpread_init (call_spread_kwargs symbol lc sc (a - b)) = Inr s"
  using assms
  by (auto simp: call_spread_try_def Let_def split: sum.splits if_splits)

lemma call_spread_try_result:
  assumes "call_spread_try symbol lc sc = Inr (Some s)"
  shows "cs_net_debit_paid s > 0
         \<and> (\<exists>a b. mid_price (cs_long_call s) = Inr a \<and> mid_price (cs_short_call s) = Inr b
                \<and> cs_net_debit_paid s = a - b)"
proof -
  from call_spread_try_Some [OF assms] obtain a b where
    m: "mid_price lc = Inr a" "mid_price sc = Inr b" and pos: "a - b > 0"
    and i: "CallSpread_init (call_spread_kwargs symbol lc sc (a - b)) = Inr s"
    by blast
  from CallSpread_init_fields(4,5,6) [OF i]
  have "cs_net_debit_paid s = a - b" "cs_long_call s = lc" "cs_short_call s = sc"
    by (simp_all add: call_spread_kwargs_def)
  with m pos show ?thesis by simp
qed

lemma build_call_spreads_member:
  assumes "s \<in> set (build_call_spreads call_contracts current_price symbol)"
  shows "\<exists>lc sc. lc \<in> set (long_call_candidates call_contracts current_price)
           \<and> sc \<in> set (short_call_candidates call_contracts lc)
           \<and> call_spread_try symbol lc sc = Inr (Some s)"
  using assms by (auto simp: build_call_spreads_def dest: appended_Some)

lemma nonpositive_premium_skipped:
  assumes "mid_price sp = Inr a" and "mid_price lp = Inr b" and "a - b \<le> 0"
  shows "put_spread_try symbol sp lp = Inr None"
  using assms by (simp add: put_spread_try_def)

lemma nonpositive_debit_skipped:
  assumes "mid_price lc = Inr a" and "mid_price sc = Inr b" and "a - b \<le> 0"
  shows "call_spread_try symbol lc sc = Inr None"
  using assms by (simp add: call_spread_try_def)

text \<open>
  The scanner passes neither \<open>strike_width\<close> nor \<open>max_profit\<close>, \<open>max_loss\<close> or
  \<open>breakeven\<close>, which the models declare as required: validation fails on every call, the
  \<open>except\<close> branch skips the pair, and both builders return the empty list.
\<close>

lemma put_spread_kwargs_rejected:
  "PutSpread_init (put_spread_kwargs symbol sp lp n) = Inl ValidationError"
  by (simp add: PutSpread_init_def PutSpread_validate_def put_spread_kwargs_def)

lemma call_spread_kwargs_rejected:
  "CallSpread_init (call_spread_kwargs symbol lc sc n) = Inl ValidationError"
  by (simp add: CallSpread_init_def CallSpread_validate_def call_spread_kwargs_def)

lemma put_spread_try_appends_nothing: "appended (put_spread_try symbol sp lp) = []"
  by (simp add: put_spread_try_def appended_def put_spread_kwargs_rejected Let_def
        split: sum.split)

lemma call_spread_try_appends_nothing: "appended (call_spread_try symbol lc sc) = []"
  by (simp add: call_spread_try_def appended_def call_spread_kwargs_rejected Let_def
        split: sum.split)

lemma builders_return_nothing:
  "build_put_spreads put_contracts current_price symbol = []"
  "build_call_spreads call_contracts current_price symbol = []"
  by (simp_all add: build_put_spreads_def build_call_spreads_def
        put_spread_try_appends_nothing call_spread_try_appends_nothing)

text \<open>
  C6. No spread returned by either builder has a non-positive net premium (put) or net
  debit (call): the premium of a returned put spread is the short leg's mid-price minus
  the long leg's and is positive, the debit of a returned call spread is the long leg's
  mid-price minus the short leg's and is positive, and a pair of legs whose premium or
  debit is not positive is skipped before a spread is built.
\<close>

theorem C6_nonpositive_premium_discarded:
  "(\<forall>s \<in> set (build_put_spreads put_contracts current_price symbol).
      ps_net_premium_collected s > 0
      \<and> (\<exists>a b. mid_price (ps_short_put s) = Inr a \<and> mid_price (ps_long_put s) = Inr b
             \<and> ps_net_premium_collected s = a - b))
   \<and> (\<forall>s \<in> set (build_call_spreads call_contracts current_price symbol).
      cs_net_debit_paid s > 0
      \<and> (\<exists>a b. mid_price (cs_long_call s) = Inr a \<and> mid_price (cs_short_call s) = Inr b
             \<and> cs_net_debit_paid s = a - b))
   \<and> (\<forall>a b. mid_price sp = Inr a \<and> mid_price lp = Inr b \<and> a - b \<le> 0
         \<longrightarrow> put_spread_try symbol sp lp = Inr None)
   \<and> (\<forall>a b. mid_price lc = Inr a \<and> mid_price sc = Inr b \<and> a - b \<le> 0
         \<longrightarrow> call_spread_try symbol lc sc = Inr None)"
proof (intro conjI ballI allI impI)
  fix s assume "s \<in> set (build_put_spreads put_contracts current_price symbol)"
  then obtain sp' lp' where "put_spread_try symbol sp' lp' = Inr (Some s)"
    using build_put_spreads_member by blast
  then show "ps_net_premium_collected s > 0" 
    and "\<exists>a b. mid_price (ps_short_put s) = Inr a \<and> mid_price (ps_long_put s) = Inr b
             \<and> ps_net_premium_collected s = a - b"
    using put_spread_try_result by blast+
next
  fix s assume "s \<in> set (build_call_spreads call_contracts current_price symbol)"
  then obtain lc' sc' where "call_spread_try symbol lc' sc' = Inr (Some s)"
    using build_call_spreads_member by blast
  then show "cs_net_debit_paid s > 0"
    and "\<exists>a b. mid_price (cs_long_call s) = Inr a \<and> mid_price (cs_short_call s) = Inr b
             \<and> cs_net_debit_paid s = a - b"
    using call_spread_try_result by blast+
next
  fix a b assume "mid_price sp = Inr a \<and> mid_price lp = Inr b \<and> a - b \<le> 0"
  then show "put_spread_try symbol sp lp = Inr None"
    using nonpositive_premium_skipped by blast
next
  fix a b assume "mid_price lc = Inr a \<and> mid_price sc = Inr b \<and> a - b \<le> 0"
  then show "call_spread_try symbol lc sc = Inr None"
    using nonpositive_debit_skipped by blast
qed

lemma sample_mid_prices:
  "mid_price (sample_contract ty k d b a) = Inr ((b + a) / 2)"
  by (simp add: mid_price_def sample_contract_def)

theorem C6_nonpositive_premium_discarded_witness:
  "mid_price (sample_contract PUT 95 (- 0.18) 1.0 1.2) = Inr 1.1
   \<and> mid_price (sample_contract PUT 88 (- 0.08) 1.2 1.4) = Inr 1.3
   \<and> (1.1::real) - 1.3 \<le> 0
   \<and> put_spread_try ''JPM'' (sample_contract PUT 95 (- 0.18) 1.0 1.2)
        (sample_contract PUT 88 (- 0.08) 1.2 1.4) = Inr None
   \<and> mid_price (sample_contract CALL 100 0.65 4.0 4.2) = Inr 4.1
   \<and> mid_price (sample_contract CALL 107 0.40 4.4 4.6) = Inr 4.5
   \<and> (4.1::real) - 4.5 \<le> 0
   \<and> call_spread_try ''JPM'' (sample_contract CALL 100 0.65 4.0 4.2)
        (sample_contract CALL 107 0.40 4.4 4.6) = Inr None"
proof -
  have m: "mid_price (sample_contract PUT 95 (- 0.18) 1.0 1.2) = Inr 1.1"
    "mid_price (sample_contract PUT 88 (- 0.08) 1.2 1.4) = Inr 1.3"
    "mid_price (sample_contract CALL 100 0.65 4.0 4.2) = Inr 4.1"
    "mid_price (sample_contract CALL 107 0.40 4.4 4.6) = Inr 4.5"
    by (simp_all add: sample_mid_prices)
  have n: "(1.1::real) - 1.3 \<le> 0" "(4.1::real) - 4.5 \<le> 0" by simp_all
  note C = C6_nonpositive_premium_discarded
     [of "[sample_contract PUT 95 (- 0.18) 1.0 1.2, sample_contract PUT 88 (- 0.08) 1.2 1.4]"
         100 "''JPM''"
         "[sample_contract CALL 100 0.65 4.0 4.2, sample_contract CALL 107 0.40 4.4 4.6]"
         "sample_contract PUT 95 (- 0.18) 1.0 1.2" "sample_contract PUT 88 (- 0.08) 1.2 1.4"
         "sample_contract CALL 100 0.65 4.0 4.2" "sample_contract CALL 107 0.40 4.4 4.6"]
  from C m n have
    "put_spread_try ''JPM'' (sample_contract PUT 95 (- 0.18) 1.0 1.2)
        (sample_contract PUT 88 (- 0.08) 1.2 1.4) = Inr None"
    "call_spread_try ''JPM'' (sample_contract CALL 100 0.65 4.0 4.2)
        (sample_contract CALL 107 0.40 4.4 4.6) = Inr None"
    by blast+
  then show ?thesis using m n by blast
qed

section \<open>Properties of the fundamentals filter\<close>

lemma eps_growth_positive_2q_iff:
  "eps_growth_positive_2q s \<longleftrightarrow>
     (\<exists>c q1 q2. sf_eps_current s = Some c \<and> sf_eps_q1_ago s = Some q1
        \<and> sf_eps_q2_ago s = Some q2 \<and> c \<noteq> 0 \<and> q1 \<noteq> 0 \<and> q2 \<noteq> 0 \<and> c > q1 \<and> q1 > q2)"
  by (auto simp: eps_growth_positive_2q_def truthy_def split: option.splits)

lemma eps_violation_recorded:
  "EPS_growth_not_positive \<in> set (snd (passes_layer1_criteria s))
     \<longleftrightarrow> \<not> eps_growth_positive_2q s"
  by (simp add: passes_layer1_criteria_def Let_def)

lemma eps_violation_fails_layer1:
  "\<not> eps_growth_positive_2q s \<Longrightarrow> \<not> fst (passes_layer1_criteria s)"
  by (simp add: passes_layer1_criteria_def Let_def)

lemma sample_fundamentals_pass:
  "passes_layer1_criteria (sample_fundamentals (Some 3) (Some 2) (Some 1)) = (True, [])"
  by (simp add: passes_layer1_criteria_def sample_fundamentals_def Let_def
        eps_growth_positive_2q_def truthy_def allowed_sectors_def)

text \<open>
  C8. The claim says the rule is true exactly when the three readings are strictly
  decreasing going back in time. The source tests the readings for truthiness first, so a
  reading of 0.0 counts as missing: with EPS 2.0, 1.0 and 0.0 (strictly decreasing going
  back) the rule is false and Layer 1 records the EPS violation as its only failure.
\<close>

theorem C8_zero_eps_reading_rejected:
  "(2::real) > 1 \<and> (1::real) > 0
   \<and> \<not> eps_growth_positive_2q (sample_fundamentals (Some 2) (Some 1) (Some 0))
   \<and> passes_layer1_criteria (sample_fundamentals (Some 2) (Some 1) (Some 0))
       = (False, [EPS_growth_not_positive])"
  by (simp add: passes_layer1_criteria_def sample_fundamentals_def Let_def
        eps_growth_positive_2q_def truthy_def allowed_sectors_def)

section \<open>Properties of the portfolio\<close>

text \<open>
  C10. \<open>add_trade\<close> either rejects and changes nothing, or accepts and appends exactly
  the trade and adds exactly its capital at risk: it rejects when the number of open trades
  has reached \<open>max_positions\<close> or the trade's capital at risk exceeds
  \<open>total_capital * (max_position_size_percent / 100)\<close>, and accepts otherwise.
\<close>

theorem C10_add_trade_atomic:
  "(int (length (pf_open_trades self)) \<ge> pf_max_positions self
      \<or> tr_capital_at_risk trade
           > pf_total_capital self * (pf_max_position_size_percent self / 100)
    \<longrightarrow> add_trade self trade now = (False, self))
   \<and> (\<not> (int (length (pf_open_trades self)) \<ge> pf_max_positions self
          \<or> tr_capital_at_risk trade
               > pf_total_capital self * (pf_max_position_size_percent self / 100))
    \<longrightarrow> fst (add_trade self trade now)
        \<and> pf_open_trades (snd (add_trade self trade now)) = pf_open_trades self @ [trade]
        \<and> pf_capital_at_risk (snd (add_trade self trade now))
            = pf_capital_at_risk self + tr_capital_at_risk trade
        \<and> snd (add_trade self trade now)
            = self\<lparr> pf_open_trades := pf_open_trades self @ [trade],
                    pf_capital_at_risk := pf_capital_at_risk self + tr_capital_at_risk trade,
                    pf_last_updated := now \<rparr>)"
  by (simp add: add_trade_def Let_def)

theorem C10_add_trade_atomic_witness:
  "add_trade (sample_portfolio 1 [sample_trade ''T1'' 200] 200) (sample_trade ''T2'' 100) 7
     = (False, sample_portfolio 1 [sample_trade ''T1'' 200] 200)
   \<and> add_trade (sample_portfolio 15 [sample_trade ''T1'' 200] 200) (sample_trade ''T2'' 300) 7
     = (False, sample_portfolio 15 [sample_trade ''T1'' 200] 200)
   \<and> fst (add_trade (sample_portfolio 15 [sample_trade ''T1'' 200] 200)
            (sample_trade ''T2'' 250) 7)
   \<and> pf_open_trades (snd (add_trade (sample_portfolio 15 [sample_trade ''T1'' 200] 200)
                             (sample_trade ''T2'' 250) 7))
       = [sample_trade ''T1'' 200, sample_trade ''T2'' 250]
   \<and> pf_capital_at_risk (snd (add_trade (sample_portfolio 15 [sample_trade ''T1'' 200] 200)
                                 (sample_trade ''T2'' 250) 7))
       = 450"
proof -
  have full: "int (length (pf_open_trades (sample_portfolio 1 [sample_trade ''T1'' 200] 200)))
                \<ge> pf_max_positions (sample_portfolio 1 [sample_trade ''T1'' 200] 200)"
    by (simp add: sample_portfolio_def)
  have big: "tr_capital_at_risk (sample_trade ''T2'' 300)
               > pf_total_capital (sample_portfolio 15 [sample_trade ''T1'' 200] 200)
                 * (pf_max_position_size_percent
                      (sample_portfolio 15 [sample_trade ''T1'' 200] 200) / 100)"
    by (simp add: sample_portfolio_def sample_trade_def)
  have ok: "\<not> (int (length (pf_open_trades (sample_portfolio 15 [sample_trade ''T1'' 200] 200)))
                  \<ge> pf_max_positions (sample_portfolio 15 [sample_trade ''T1'' 200] 200)
               \<or> tr_capital_at_risk (sample_trade ''T2'' 250)
                   > pf_total_capital (sample_portfolio 15 [sample_trade ''T1'' 200] 200)
                     * (pf_max_position_size_percent
                          (sample_portfolio 15 [sample_trade ''T1'' 200] 200) / 100))"
    by (simp add: sample_portfolio_def sample_trade_def)
  have a: "add_trade (sample_portfolio 1 [sample_trade ''T1'' 200] 200) (sample_trade ''T2'' 100) 7
     = (False, sample_portfolio 1 [sample_trade ''T1'' 200] 200)"
    using C10_add_trade_atomic
            [of "sample_portfolio 1 [sample_trade ''T1'' 200] 200" "sample_trade ''T2'' 100" 7]
          full
    by blast
  have b: "add_trade (sample_portfolio 15 [sample_trade ''T1'' 200] 200) (sample_trade ''T2'' 300) 7
     = (False, sample_portfolio 15 [sample_trade ''T1'' 200] 200)"
    using C10_add_trade_atomic
            [of "sample_portfolio 15 [sample_trade ''T1'' 200] 200" "sample_trade ''T2'' 300" 7]
          big
    by blast
  have c: "fst (add_trade (sample_portfolio 15 [sample_trade ''T1'' 200] 200)
            (sample_trade ''T2'' 250) 7)"
    "pf_open_trades (snd (add_trade (sample_portfolio 15 [sample_trade ''T1'' 200] 200)
                             (sample_trade ''T2'' 250) 7))
       = pf_open_trades (sample_portfolio 15 [sample_trade ''T1'' 200] 200)
           @ [sample_trade ''T2'' 250]"
    "pf_capital_at_risk (snd (add_trade (sample_portfolio 15 [sample_trade ''T1'' 200] 200)
                                 (sample_trade ''T2'' 250) 7))
       = pf_capital_at_risk (sample_portfolio 15 [sample_trade ''T1'' 200] 200)
           + tr_capital_at_risk (sample_trade ''T2'' 250)"
    using C10_add_trade_atomic
            [of "sample_portfolio 15 [sample_trade ''T1'' 200] 200" "sample_trade ''T2'' 250" 7]
          ok
    by blast+
  have d: "pf_open_trades (sample_portfolio 15 [sample_trade ''T1'' 200] 200)
             = [sample_trade ''T1'' 200]"
    "pf_capital_at_risk (sample_portfolio 15 [sample_trade ''T1'' 200] 200) = 200"
    "tr_capital_at_risk (sample_trade ''T2'' 250) = 250"
    by (simp_all add: sample_portfolio_def sample_trade_def)
  show ?thesis using a b c d by simp
qed

section \<open>Properties of the reversion-probability estimator\<close>

lemma clamp_nan_or_in_range:
  "py_min (py_max prob (Fin 30)) (Fin 95) = NaN
   \<or> (\<exists>p. py_min (py_max prob (Fin 30)) (Fin 95) = Fin p \<and> 30 \<le> p \<and> p \<le> 95)"
  by (cases prob) (auto simp: py_min_def py_max_def)

text \<open>
  Every value returned is NaN or lies in [30, 95]: the clamp is the last step on the main
  path, and the other paths return 50.
\<close>

lemma reversion_probability_nan_or_in_range:
  "calculate_reversion_probability df c n = NaN
   \<or> (\<exists>p. calculate_reversion_probability df c n = Fin p \<and> 30 \<le> p \<and> p \<le> 95)"
proof (cases "df_empty df \<or> int (df_nrows df) < n")
  case True
  then have "calculate_reversion_probability df c n = Fin 50"
    by (auto simp: calculate_reversion_probability_def)
  then show ?thesis by simp
next
  case False
  show ?thesis
  proof (cases "calculate_reversion_probability_try df c n")
    case (Inl e)
    with False have "calculate_reversion_probability df c n = Fin 50"
      by (simp add: calculate_reversion_probability_def)
    then show ?thesis by simp
  next
    case (Inr r)
    then obtain prob where "r = py_min (py_max prob (Fin 30)) (Fin 95)"
      by (auto simp: calculate_reversion_probability_try_def Let_def split: sum.splits)
    moreover from False Inr have "calculate_reversion_probability df c n = r"
      by (simp add: calculate_reversion_probability_def)
    ultimately show ?thesis using clamp_nan_or_in_range [of prob] by simp
  qed
qed

text \<open>
  A NaN current spread comes out as NaN whenever the window has a positive standard
  deviation: no row is an analog, the z-score is NaN, and \<open>min\<close> and \<open>max\<close> hand the NaN on.
\<close>

lemma nan_current_spread_passes_the_clamp:
  assumes "\<not> (df_empty df \<or> int (df_nrows df) < n)"
    and "df_getitem (df_tail n df) ''spread'' = Inr spread"
    and "pd_std spread = Some std" and "0 < std"
  shows "calculate_reversion_probability df NaN n = NaN"
proof -
  from assms(3) have "spread \<noteq> []" by (auto simp: pd_std_def split: if_splits)
  then obtain mean where m: "pd_mean spread = Some mean" by (simp add: pd_mean_def)
  have s: "similar_extremes spread NaN = []"
    by (simp add: similar_extremes_def assms(3) np_sub_def)
  have z: "reversion_z_score spread NaN = NaN"
    using assms(4) by (simp add: reversion_z_score_def m assms(3) np_sub_def)
  show ?thesis
    using assms(1,2)
    by (simp add: calculate_reversion_probability_def calculate_reversion_probability_try_def
          Let_def s z py_min_def py_max_def)
qed

lemma upt_9: "[0..<9] = [0, 1, 2, 3, 4, 5, 6, 7, 8]" by code_simp

lemma sample_std_9: "pd_std [0, 0, 0, 0, 0, 0, 0, 0, 3] = Some 1"
  by (simp add: pd_std_def Let_def power2_eq_square)

lemma sample_mean_9: "pd_mean [0, 0, 0, 0, 0, 0, 0, 0, 3] = Some (1 / 3)"
  by (simp add: pd_mean_def)

lemma sample_history_sufficient_9:
  "\<not> (df_empty (sample_history [0, 0, 0, 0, 0, 0, 0, 0, 3])
       \<or> int (df_nrows (sample_history [0, 0, 0, 0, 0, 0, 0, 0, 3])) < 9)"
  by (simp add: df_empty_def sample_history_def)

lemma sample_history_column_9:
  "df_getitem (df_tail 9 (sample_history [0, 0, 0, 0, 0, 0, 0, 0, 3])) ''spread''
     = Inr [0, 0, 0, 0, 0, 0, 0, 0, 3]"
  by (simp add: sample_history_def pd_tail_def df_getitem_def df_tail_def)

text \<open>
  C9. The claim promises a value in [30, 95] for every current spread. The clamp is
  written with Python's \<open>min\<close> and \<open>max\<close>, which return a NaN first argument unchanged: for
  a NaN current spread and a window with a positive standard deviation (here nine rows,
  eight 0.0 and one 3.0, standard deviation 1) the z-score is NaN, no exception is raised,
  and the function returns NaN.
\<close>

theorem C9_nan_current_spread_returns_nan:
  "calculate_reversion_probability (sample_history [0, 0, 0, 0, 0, 0, 0, 0, 3]) NaN 9 = NaN"
proof -
  have "(0::real) < 1" by simp
  from nan_current_spread_passes_the_clamp
         [OF sample_history_sufficient_9 sample_history_column_9 sample_std_9 this]
  show ?thesis .
qed

text \<open>The paths of the estimator on finite current spreads.\<close>

lemma insufficient_history_gives_50:
  "df_empty df \<or> int (df_nrows df) < n \<Longrightarrow> calculate_reversion_probability df c n = Fin 50"
  by (auto simp: calculate_reversion_probability_def)

lemma missing_column_gives_50:
  "calculate_reversion_probability
     \<lparr> df_nrows = 3, df_columns = [(''close'', [1, 2, 3])] \<rparr> (Fin 5) 3 = Fin 50"
  by (simp add: calculate_reversion_probability_def calculate_reversion_probability_try_def
        df_empty_def df_getitem_def df_tail_def pd_tail_def)

lemma z_score_path_example:
  "calculate_reversion_probability (sample_history [0, 0, 0, 0, 0, 0, 0, 0, 3]) (Fin 3) 9
     = Fin (230 / 3)"
proof -
  have s: "similar_extremes [0, 0, 0, 0, 0, 0, 0, 0, 3] (Fin 3) = [8]"
    by (simp add: similar_extremes_def sample_std_9 upt_9 np_sub_def round_sum_def
          round_prod_def float_overflow_def float_underflow_def)
  have z: "reversion_z_score [0, 0, 0, 0, 0, 0, 0, 0, 3] (Fin 3) = Fin (8 / 3)"
    by (simp add: reversion_z_score_def sample_std_9 sample_mean_9 np_sub_def round_sum_def
          round_prod_def float_overflow_def float_underflow_def)
  show ?thesis
    using sample_history_sufficient_9
    by (simp add: calculate_reversion_probability_def calculate_reversion_probability_try_def
          sample_history_column_9 Let_def s z py_min_def py_max_def round_sum_def
          round_prod_def float_overflow_def float_underflow_def)
qed


text \<open>
  The empirical path on a window of 25 rows, fifteen 0.0 followed by ten 4.0 (mean 1.6,
  standard deviation 2), with current spread 0.5 below the mean: the fifteen rows at 0.0
  are the analogs, the first five of them have a row 20 observations ahead, and each of
  these is at 4.0, above the current spread. Five reversions out of fifteen analogs give
  33.3 percent.
\<close>

lemma upt_25:
  "[0..<25] = [0, 1, 2, 3, 4, 5, 6, 7, 8, 9, 10, 11, 12, 13, 14, 15, 16, 17, 18, 19, 20,
               21, 22, 23, 24]"
  by code_simp

lemma sample_std_25: "pd_std [0, 0, 0, 0, 0, 0, 0, 0, 0, 0, 0, 0, 0, 0, 0, 4, 4, 4, 4, 4, 4, 4, 4, 4, 4] = Some 2"
proof -
  have "sqrt 4 = 2" using real_sqrt_abs [of 2] by simp
  then show ?thesis by (simp add: pd_std_def Let_def power2_eq_square)
qed

lemma sample_mean_25: "pd_mean [0, 0, 0, 0, 0, 0, 0, 0, 0, 0, 0, 0, 0, 0, 0, 4, 4, 4, 4, 4, 4, 4, 4, 4, 4] = Some (8 / 5)"
  by (simp add: pd_mean_def)

lemma sample_similar_25:
  "similar_extremes [0, 0, 0, 0, 0, 0, 0, 0, 0, 0, 0, 0, 0, 0, 0, 4, 4, 4, 4, 4, 4, 4, 4, 4, 4] (Fin 0.5) = [0, 1, 2, 3, 4, 5, 6, 7, 8, 9, 10, 11, 12, 13, 14]"
  by (simp add: similar_extremes_def sample_std_25 upt_25 np_sub_def round_sum_def
        round_prod_def float_overflow_def float_underflow_def)

lemma sample_count_25:
  "count_reversions [0, 0, 0, 0, 0, 0, 0, 0, 0, 0, 0, 0, 0, 0, 0, 4, 4, 4, 4, 4, 4, 4, 4, 4, 4] (Fin 0.5) (8 / 5)
     [0, 1, 2, 3, 4, 5, 6, 7, 8, 9, 10, 11, 12, 13, 14] 0 = 5"
  by (simp add: Let_def)

lemma empirical_path_example:
  "calculate_reversion_probability (sample_history [0, 0, 0, 0, 0, 0, 0, 0, 0, 0, 0, 0, 0, 0, 0, 4, 4, 4, 4, 4, 4, 4, 4, 4, 4]) (Fin 0.5) 25 = Fin (100 / 3)"
proof -
  have c: "df_getitem (df_tail 25 (sample_history [0, 0, 0, 0, 0, 0, 0, 0, 0, 0, 0, 0, 0, 0, 0, 4, 4, 4, 4, 4, 4, 4, 4, 4, 4])) ''spread'' = Inr [0, 0, 0, 0, 0, 0, 0, 0, 0, 0, 0, 0, 0, 0, 0, 4, 4, 4, 4, 4, 4, 4, 4, 4, 4]"
    by (simp add: sample_history_def pd_tail_def df_getitem_def df_tail_def)
  have n: "\<not> (df_empty (sample_history [0, 0, 0, 0, 0, 0, 0, 0, 0, 0, 0, 0, 0, 0, 0, 4, 4, 4, 4, 4, 4, 4, 4, 4, 4]) \<or> int (df_nrows (sample_history [0, 0, 0, 0, 0, 0, 0, 0, 0, 0, 0, 0, 0, 0, 0, 4, 4, 4, 4, 4, 4, 4, 4, 4, 4])) < 25)"
    by (simp add: df_empty_def sample_history_def)
  have r: "empirical_reversion_rate [0, 0, 0, 0, 0, 0, 0, 0, 0, 0, 0, 0, 0, 0, 0, 4, 4, 4, 4, 4, 4, 4, 4, 4, 4] (Fin 0.5)
             [0, 1, 2, 3, 4, 5, 6, 7, 8, 9, 10, 11, 12, 13, 14] = Fin (100 / 3)"
    unfolding empirical_reversion_rate_def sample_mean_25 Let_def option.case sample_count_25
    by simp
  show ?thesis
    unfolding calculate_reversion_probability_def calculate_reversion_probability_try_def
      c sum.case Let_def sample_similar_25 r
    using n by (simp add: py_min_def py_max_def)
qed

end
